theory Spec2Isabelle
  imports Complex_Main
begin

section \<open>Values, exceptions and dictionaries\<close>

text \<open>
  The script \<^verbatim>\<open>ARtest.py\<close> computes with Python floats. They are modelled as real
  numbers: rounding is not represented, so every statement below is about the exact
  arithmetic that the floating-point code approximates (the one place where rounding
  decides what the program does, a denominator that evaluates to 0.0, is treated
  below). What Python does beyond
  returning a value is explicit: an exception is the left injection of a sum, printing
  appends a line to \<open>stdout\<close>.
\<close>

datatype error = KeyError string | AssertionError | ZeroDivisionError

text \<open>
  A Python \<^verbatim>\<open>dict\<close> keeps its keys in insertion order, and that order is what
  \<^verbatim>\<open>.items()\<close> iterates over: a dictionary is an association list.
  \<^verbatim>\<open>d[k]\<close> raises \<^verbatim>\<open>KeyError(k)\<close> when the key is absent;
  \<^verbatim>\<open>d[k] = v\<close> overwrites in place or appends a new key at the end.
\<close>

type_synonym 'v dict = "(string \<times> 'v) list"

definition dict_get :: "'v dict \<Rightarrow> string \<Rightarrow> error + 'v" where
  "dict_get d k = (case map_of d k of None \<Rightarrow> Inl (KeyError k) | Some v \<Rightarrow> Inr v)"

fun dict_set :: "'v dict \<Rightarrow> string \<Rightarrow> 'v \<Rightarrow> 'v dict" where
  "dict_set [] k v = [(k, v)]"
| "dict_set ((k', v') # d) k v =
     (if k' = k then (k', v) # d else (k', v') # dict_set d k v)"

definition keys :: "'v dict \<Rightarrow> string list" where
  "keys d = map fst d"

text \<open>Sequencing of computations that may raise: the first exception is the result.\<close>

definition bind :: "error + 'a \<Rightarrow> ('a \<Rightarrow> error + 'b) \<Rightarrow> error + 'b" where
  "bind m f = (case m of Inl e \<Rightarrow> Inl e | Inr v \<Rightarrow> f v)"

text \<open>
  Division. Python raises \<^verbatim>\<open>ZeroDivisionError\<close> when both operands are plain floats
  and the denominator has the value 0.0; when an operand is a numpy float, as the values
  of a numerical library are, the division returns \<^verbatim>\<open>inf\<close> or \<^verbatim>\<open>nan\<close> instead.
  Exact arithmetic does not determine which denominators have the float value 0.0, nor
  what is returned near them, so both are parameters of the model: whether the division
  raises, and the value it returns otherwise (a non-finite or a very large float,
  represented by an unspecified number). They are consulted only where the float value
  of the denominator can be 0.0 (\<open>zero\<close>); everywhere else the division returns the
  exact quotient.
\<close>

definition float_div :: "bool \<Rightarrow> bool \<Rightarrow> real \<Rightarrow> real \<Rightarrow> real \<Rightarrow> error + real" where
  "float_div raises zero at_zero a b =
     (if raises then Inl ZeroDivisionError
      else Inr (if zero then at_zero else a / b))"

text \<open>
  The parameters for the two divisions of \<^verbatim>\<open>eq_coc_state\<close>. For the inner one they
  are given the numerator and the two rates that make up the denominator, for the outer
  one the numerator.
\<close>

record floats =
  inner_raises :: "real \<Rightarrow> real \<Rightarrow> real \<Rightarrow> bool"
  inner_value :: "real \<Rightarrow> real \<Rightarrow> real \<Rightarrow> real"
  outer_raises :: "real \<Rightarrow> bool"
  outer_value :: "real \<Rightarrow> real"

text \<open>
  The float value of \<open>1 - u_f - u_s + u_f * u_s\<close> is the result of four rounded
  operations; it can be 0.0 only when the exact value is no larger than the accumulated
  rounding error, which the following bound exceeds (the unit roundoff of a double is
  \<open>1 / 2 ^ 53\<close>). The float value of \<open>1 - tau_GR\<close> is 0.0 only when \<open>tau_GR\<close> is 1.
\<close>

definition rounding_bound :: "real \<Rightarrow> real \<Rightarrow> real" where
  "rounding_bound u_f u_s = (1 + \<bar>u_f\<bar> + \<bar>u_s\<bar> + \<bar>u_f * u_s\<bar>) / 2 ^ 50"

definition inner_zero :: "real \<Rightarrow> real \<Rightarrow> bool" where
  "inner_zero u_f u_s = (\<bar>1 - u_f - u_s + u_f * u_s\<bar> \<le> rounding_bound u_f u_s)"

definition outer_zero :: "real \<Rightarrow> bool" where
  "outer_zero tau_GR = (tau_GR = 1)"

definition inner_zero_division :: "'a floats_scheme \<Rightarrow> real \<Rightarrow> real \<Rightarrow> real \<Rightarrow> bool" where
  "inner_zero_division F n u_f u_s = (inner_zero u_f u_s \<and> inner_raises F n u_f u_s)"

definition outer_zero_division :: "'a floats_scheme \<Rightarrow> real \<Rightarrow> real \<Rightarrow> bool" where
  "outer_zero_division F n tau_GR = (outer_zero tau_GR \<and> outer_raises F n)"

section \<open>The cost of capital with state taxes\<close>

text \<open>
  \<^verbatim>\<open>eq_coc_state\<close>, lines 17 to 46, for the float parameters \<open>F\<close>. The parameter
  \<^verbatim>\<open>pi\<close> is written \<open>pi'\<close> (\<open>pi\<close> is the circle constant here). The two divisions
  are evaluated in the order Python evaluates them: the inner quotient first, then the
  quotient by \<open>1 - tau_GR\<close>, then the subtraction of \<open>delta\<close>.
\<close>

definition eq_coc_state ::
  "'a floats_scheme \<Rightarrow>
     real \<Rightarrow> real \<Rightarrow> real \<Rightarrow> real \<Rightarrow> real \<Rightarrow> real \<Rightarrow> real \<Rightarrow> real \<Rightarrow> real \<Rightarrow> real \<Rightarrow> error + real" where
  "eq_coc_state F delta z_f z_s w u_f u_s tau_GR inv_tax_credit pi' r =
     bind (float_div (inner_zero_division F (r - pi' + delta) u_f u_s)
             (inner_zero u_f u_s)
             (inner_value F (r - pi' + delta) u_f u_s)
             (r - pi' + delta) (1 - u_f - u_s + u_f * u_s)) (\<lambda>q.
     bind (float_div
             (outer_zero_division F
                (q * (1 - inv_tax_credit - u_f * z_f - u_s * z_s + u_f * u_s * z_s) + w)
                tau_GR)
             (outer_zero tau_GR)
             (outer_value F
                (q * (1 - inv_tax_credit - u_f * z_f - u_s * z_s + u_f * u_s * z_s) + w))
             (q * (1 - inv_tax_credit - u_f * z_f - u_s * z_s + u_f * u_s * z_s) + w)
             (1 - tau_GR)) (\<lambda>q'.
     Inr (q' - delta)))"

text \<open>
  Some division of a call with these rates can raise: the parameters say so for some
  numerator, at a denominator whose float value can be 0.0.
\<close>

definition may_raise :: "'a floats_scheme \<Rightarrow> real \<Rightarrow> real \<Rightarrow> real \<Rightarrow> bool" where
  "may_raise F u_f u_s tau_GR =
     ((\<exists>n. inner_zero_division F n u_f u_s) \<or> (\<exists>n. outer_zero_division F n tau_GR))"

text \<open>
  The formula of the specification, section 4.2, as a real number:
  \<open>rho = [((r - pi + delta) / (1 - u_f - u_s + u_f u_s)) (1 - ITC - u_f z_f - u_s z_s + u_f u_s z_s) + w] / (1 - tau_GR) - delta\<close>.
\<close>

definition rho_formula ::
  "real \<Rightarrow> real \<Rightarrow> real \<Rightarrow> real \<Rightarrow> real \<Rightarrow> real \<Rightarrow> real \<Rightarrow> real \<Rightarrow> real \<Rightarrow> real \<Rightarrow> real" where
  "rho_formula delta z_f z_s w u_f u_s tau_GR ITC pi' r =
     (((r - pi' + delta) / (1 - u_f - u_s + u_f * u_s))
        * (1 - ITC - u_f * z_f - u_s * z_s + u_f * u_s * z_s) + w) / (1 - tau_GR) - delta"

section \<open>The external formula library\<close>

text \<open>
  The package \<^verbatim>\<open>ccc\<close> is not part of the repository. The six functions the script
  calls are parameters of the model: a record of arbitrary functions on numbers, with
  the argument order of the calls. The library also fixes the type of the numbers the
  script divides (its results are operands of the divisions), so the record extends the
  float parameters. Every theorem below holds for every such record. The lives and the
  declining-balance multiplier are Python integers.
\<close>

record library = floats +
  calc_r :: "real \<Rightarrow> real \<Rightarrow> real \<Rightarrow> real \<Rightarrow> real \<Rightarrow> real \<Rightarrow> real \<Rightarrow> real \<Rightarrow> real"
  calc_r_prime :: "real \<Rightarrow> real \<Rightarrow> real \<Rightarrow> real \<Rightarrow> real"
  dbsl :: "int \<Rightarrow> int \<Rightarrow> real \<Rightarrow> real \<Rightarrow> real"
  sl :: "int \<Rightarrow> real \<Rightarrow> real \<Rightarrow> real"
  eq_metr :: "real \<Rightarrow> real \<Rightarrow> real \<Rightarrow> real"
  eq_eatr :: "real \<Rightarrow> real \<Rightarrow> real \<Rightarrow> real \<Rightarrow> real"

section \<open>The scenario evaluator\<close>

text \<open>
  What a call of \<^verbatim>\<open>compute_outputs\<close> can reach. The environment holds the
  module-level names the function reads (lines 50 to 62) and the two dictionaries it is
  passed (\<open>bonus_s\<close> and \<open>inv_tax_credit\<close>, objects shared with the caller).
  The state of a call is the environment and the standard output. The scalar arguments
  \<open>u_s\<close>, \<open>franchise_tax_rate\<close> and \<open>tau_GR\<close> are immutable numbers and are
  passed by value.
\<close>

record environment =
  inflation_rate :: real
  nominal_int_rate :: real
  fraction_financed_w_debt :: real
  federal_bonus_depreciation :: "real dict"
  depreciation_rates :: "real dict"
  depreciation_lives :: "int dict"
  depreciation_methods :: "string dict"
  E :: real
  profit_rate :: real
  int_haircut :: real
  u_f :: real
  bonus_s :: "real dict"
  inv_tax_credit :: "real dict"

record state =
  env :: environment
  stdout :: "string list"

definition diagnostic :: string where
  "diagnostic = ''Please enter one of: dbsl, sl''"

type_synonym out_dict = "real dict dict"

text \<open>Lines 97 to 105: the two present values of depreciation deductions.\<close>

definition select_z ::
  "library \<Rightarrow> string \<Rightarrow> real \<Rightarrow> state \<Rightarrow> (error + real \<times> real) \<times> state" where
  "select_z L k r st =
     (case dict_get (depreciation_methods (env st)) k of
        Inl e \<Rightarrow> (Inl e, st)
      | Inr m \<Rightarrow>
          if m = ''dbsl'' then
            (bind (dict_get (depreciation_lives (env st)) k) (\<lambda>Y.
             bind (dict_get (federal_bonus_depreciation (env st)) k) (\<lambda>b_f.
             bind (dict_get (depreciation_lives (env st)) k) (\<lambda>Y'.
             bind (dict_get (bonus_s (env st)) k) (\<lambda>b_s.
             Inr (dbsl L Y 2 b_f r, dbsl L Y' 2 b_s r))))), st)
          else if m = ''sl'' then
            (bind (dict_get (depreciation_lives (env st)) k) (\<lambda>Y.
             bind (dict_get (federal_bonus_depreciation (env st)) k) (\<lambda>b_f.
             bind (dict_get (depreciation_lives (env st)) k) (\<lambda>Y'.
             bind (dict_get (bonus_s (env st)) k) (\<lambda>b_s.
             Inr (sl L Y b_f r, sl L Y' b_s r))))), st)
          else
            (Inl AssertionError,
             st\<lparr>stdout := stdout st @ [diagnostic]\<rparr>))"

text \<open>\<^verbatim>\<open>out_dict[k][name] = v\<close>: the inner dictionary must exist.\<close>

definition store :: "out_dict \<Rightarrow> string \<Rightarrow> string \<Rightarrow> real \<Rightarrow> error + out_dict" where
  "store out k name v =
     bind (dict_get out k) (\<lambda>inner. Inr (dict_set out k (dict_set inner name v)))"

text \<open>Lines 106 to 116, for the present values \<open>z_f\<close> and \<open>z_s\<close>.\<close>

definition outputs ::
  "library \<Rightarrow> real \<Rightarrow> real \<Rightarrow> real \<Rightarrow> string \<Rightarrow> real \<Rightarrow> real \<Rightarrow> real \<Rightarrow> real \<Rightarrow>
     out_dict \<Rightarrow> state \<Rightarrow> error + out_dict" where
  "outputs L u_s franchise_tax_rate tau_GR k r r_prime z_f z_s out st =
     bind (dict_get (depreciation_rates (env st)) k) (\<lambda>delta.
     bind (dict_get (inv_tax_credit (env st)) k) (\<lambda>itc.
     bind (eq_coc_state L delta z_f z_s franchise_tax_rate (u_f (env st)) u_s tau_GR itc
             (inflation_rate (env st)) r) (\<lambda>rho.
     let metr = eq_metr L rho r_prime (inflation_rate (env st));
         eatr = eq_eatr L rho metr (profit_rate (env st)) (u_f (env st) + u_s - u_f (env st) * u_s)
     in bind (store out k ''rho'' rho) (\<lambda>out1.
        bind (store out1 k ''metr'' metr) (\<lambda>out2.
        store out2 k ''eatr'' eatr)))))"

text \<open>One iteration of the loop of line 91, lines 92 to 116.\<close>

definition loop_body ::
  "library \<Rightarrow> real \<Rightarrow> real \<Rightarrow> real \<Rightarrow> string \<Rightarrow> out_dict \<Rightarrow> state \<Rightarrow>
     (error + out_dict) \<times> state" where
  "loop_body L u_s franchise_tax_rate tau_GR k out st =
     (let r = calc_r L (u_f (env st) + u_s - u_f (env st) * u_s) (nominal_int_rate (env st))
                (inflation_rate (env st)) (nominal_int_rate (env st)) (fraction_financed_w_debt (env st))
                (int_haircut (env st)) (E (env st)) 0.0;
          r_prime = calc_r_prime L (nominal_int_rate (env st)) (inflation_rate (env st))
                      (fraction_financed_w_debt (env st)) (E (env st))
      in case select_z L k r st of
           (Inl e, st') \<Rightarrow> (Inl e, st')
         | (Inr (z_f, z_s), st') \<Rightarrow>
             (outputs L u_s franchise_tax_rate tau_GR k r r_prime z_f z_s out st', st'))"

text \<open>The \<^verbatim>\<open>for\<close> loop: an exception ends it, and the call.\<close>

fun for_loop ::
  "library \<Rightarrow> real \<Rightarrow> real \<Rightarrow> real \<Rightarrow> string list \<Rightarrow> out_dict \<Rightarrow> state \<Rightarrow>
     (error + out_dict) \<times> state" where
  "for_loop L u_s franchise_tax_rate tau_GR [] out st = (Inr out, st)"
| "for_loop L u_s franchise_tax_rate tau_GR (k # ks) out st =
     (case loop_body L u_s franchise_tax_rate tau_GR k out st of
        (Inl e, st') \<Rightarrow> (Inl e, st')
      | (Inr out', st') \<Rightarrow> for_loop L u_s franchise_tax_rate tau_GR ks out' st')"

text \<open>
  \<^verbatim>\<open>compute_outputs\<close>, lines 77 to 117. The dictionary arguments are the fields
  \<open>bonus_s\<close> and \<open>inv_tax_credit\<close> of the environment.
\<close>

definition compute_outputs ::
  "library \<Rightarrow> real \<Rightarrow> real \<Rightarrow> real \<Rightarrow> state \<Rightarrow> (error + out_dict) \<times> state" where
  "compute_outputs L u_s franchise_tax_rate tau_GR st =
     for_loop L u_s franchise_tax_rate tau_GR (keys (depreciation_rates (env st)))
       [(''machines'', []), (''buildings'', []), (''intangibles'', [])] st"

text \<open>
  The refactoring of the loop that computes the two discount rates once, before the
  loop, and passes them to every iteration.
\<close>

definition loop_body_hoisted ::
  "library \<Rightarrow> real \<Rightarrow> real \<Rightarrow> real \<Rightarrow> real \<Rightarrow> real \<Rightarrow> string \<Rightarrow> out_dict \<Rightarrow> state \<Rightarrow>
     (error + out_dict) \<times> state" where
  "loop_body_hoisted L u_s franchise_tax_rate tau_GR r r_prime k out st =
     (case select_z L k r st of
        (Inl e, st') \<Rightarrow> (Inl e, st')
      | (Inr (z_f, z_s), st') \<Rightarrow>
          (outputs L u_s franchise_tax_rate tau_GR k r r_prime z_f z_s out st', st'))"

fun for_loop_hoisted ::
  "library \<Rightarrow> real \<Rightarrow> real \<Rightarrow> real \<Rightarrow> real \<Rightarrow> real \<Rightarrow> string list \<Rightarrow> out_dict \<Rightarrow> state \<Rightarrow>
     (error + out_dict) \<times> state" where
  "for_loop_hoisted L u_s franchise_tax_rate tau_GR r r_prime [] out st = (Inr out, st)"
| "for_loop_hoisted L u_s franchise_tax_rate tau_GR r r_prime (k # ks) out st =
     (case loop_body_hoisted L u_s franchise_tax_rate tau_GR r r_prime k out st of
        (Inl e, st') \<Rightarrow> (Inl e, st')
      | (Inr out', st') \<Rightarrow>
          for_loop_hoisted L u_s franchise_tax_rate tau_GR r r_prime ks out' st')"

definition compute_outputs_hoisted ::
  "library \<Rightarrow> real \<Rightarrow> real \<Rightarrow> real \<Rightarrow> state \<Rightarrow> (error + out_dict) \<times> state" where
  "compute_outputs_hoisted L u_s franchise_tax_rate tau_GR st =
     (let r = calc_r L (u_f (env st) + u_s - u_f (env st) * u_s) (nominal_int_rate (env st))
                (inflation_rate (env st)) (nominal_int_rate (env st))
                (fraction_financed_w_debt (env st)) (int_haircut (env st)) (E (env st)) 0.0;
          r_prime = calc_r_prime L (nominal_int_rate (env st)) (inflation_rate (env st))
                      (fraction_financed_w_debt (env st)) (E (env st))
      in for_loop_hoisted L u_s franchise_tax_rate tau_GR r r_prime
           (keys (depreciation_rates (env st)))
           [(''machines'', []), (''buildings'', []), (''intangibles'', [])] st)"

text \<open>
  The two discount rates of lines 92 to 96, named for the statements below: they depend
  on the call's \<open>u_s\<close> and on module-level numbers only.
\<close>

definition discount_rate :: "library \<Rightarrow> real \<Rightarrow> state \<Rightarrow> real" where
  "discount_rate L u_s st =
     calc_r L (u_f (env st) + u_s - u_f (env st) * u_s) (nominal_int_rate (env st))
       (inflation_rate (env st)) (nominal_int_rate (env st))
       (fraction_financed_w_debt (env st)) (int_haircut (env st)) (E (env st)) 0.0"

definition discount_rate_prime :: "library \<Rightarrow> state \<Rightarrow> real" where
  "discount_rate_prime L st =
     calc_r_prime L (nominal_int_rate (env st)) (inflation_rate (env st))
       (fraction_financed_w_debt (env st)) (E (env st))"

section \<open>Conditions on the inputs\<close>

text \<open>
  An asset whose configured method name is present and is neither of the two recognised
  names.
\<close>

definition unrecognised :: "state \<Rightarrow> string \<Rightarrow> bool" where
  "unrecognised st k =
     (case map_of (depreciation_methods (env st)) k of
        None \<Rightarrow> False
      | Some m \<Rightarrow> m \<noteq> ''dbsl'' \<and> m \<noteq> ''sl'')"

text \<open>
  The cost-of-capital call of the iteration for asset \<open>k\<close>, when the iteration gets
  that far: the method is recognised and every dictionary has the key. \<open>None\<close>
  otherwise.
\<close>

definition asset_rho ::
  "library \<Rightarrow> real \<Rightarrow> real \<Rightarrow> real \<Rightarrow> state \<Rightarrow> string \<Rightarrow> (error + real) option" where
  "asset_rho L u_s franchise_tax_rate tau_GR st k =
     (case map_of (depreciation_methods (env st)) k of None \<Rightarrow> None | Some m \<Rightarrow>
      case map_of (depreciation_lives (env st)) k of None \<Rightarrow> None | Some Y \<Rightarrow>
      case map_of (federal_bonus_depreciation (env st)) k of None \<Rightarrow> None | Some b_f \<Rightarrow>
      case map_of (bonus_s (env st)) k of None \<Rightarrow> None | Some b_s \<Rightarrow>
      case map_of (depreciation_rates (env st)) k of None \<Rightarrow> None | Some delta \<Rightarrow>
      case map_of (inv_tax_credit (env st)) k of None \<Rightarrow> None | Some itc \<Rightarrow>
        if m = ''dbsl'' then
          Some (eq_coc_state L delta
                  (dbsl L Y 2 b_f (discount_rate L u_s st))
                  (dbsl L Y 2 b_s (discount_rate L u_s st))
                  franchise_tax_rate (u_f (env st)) u_s tau_GR itc (inflation_rate (env st))
                  (discount_rate L u_s st))
        else if m = ''sl'' then
          Some (eq_coc_state L delta
                  (sl L Y b_f (discount_rate L u_s st))
                  (sl L Y b_s (discount_rate L u_s st))
                  franchise_tax_rate (u_f (env st)) u_s tau_GR itc (inflation_rate (env st))
                  (discount_rate L u_s st))
        else None)"

text \<open>
  The inputs on which the iteration for asset \<open>k\<close> raises nothing: the asset is one of
  the three keys of \<open>out_dict\<close>, its method is recognised, every dictionary has the
  key, and the cost-of-capital call returns.
\<close>

definition iteration_ok :: "library \<Rightarrow> real \<Rightarrow> real \<Rightarrow> real \<Rightarrow> state \<Rightarrow> string \<Rightarrow> bool" where
  "iteration_ok L u_s franchise_tax_rate tau_GR st k =
     (k \<in> set [''machines'', ''buildings'', ''intangibles''] \<and>
      (case asset_rho L u_s franchise_tax_rate tau_GR st k of
         Some (Inr rho) \<Rightarrow> True
       | _ \<Rightarrow> False))"

text \<open>
  What an iteration that raises nothing has stored for asset \<open>k\<close> in the result
  \<open>out\<close>: the two present values come from the formula that the asset's method
  names, called on the asset's life, the federal or the state bonus rate and the
  discount rate, and the three outputs are derived from them.
\<close>

definition routed ::
  "library \<Rightarrow> real \<Rightarrow> real \<Rightarrow> real \<Rightarrow> state \<Rightarrow> string \<Rightarrow> out_dict \<Rightarrow> bool" where
  "routed L u_s franchise_tax_rate tau_GR st k out =
     (\<exists>Y b_f b_s delta itc z_f z_s rho inner.
        map_of (depreciation_lives (env st)) k = Some Y \<and>
        map_of (federal_bonus_depreciation (env st)) k = Some b_f \<and>
        map_of (bonus_s (env st)) k = Some b_s \<and>
        map_of (depreciation_rates (env st)) k = Some delta \<and>
        map_of (inv_tax_credit (env st)) k = Some itc \<and>
        (map_of (depreciation_methods (env st)) k = Some ''dbsl'' \<and>
           z_f = dbsl L Y 2 b_f (discount_rate L u_s st) \<and>
           z_s = dbsl L Y 2 b_s (discount_rate L u_s st) \<or>
         map_of (depreciation_methods (env st)) k = Some ''sl'' \<and>
           z_f = sl L Y b_f (discount_rate L u_s st) \<and>
           z_s = sl L Y b_s (discount_rate L u_s st)) \<and>
        eq_coc_state L delta z_f z_s franchise_tax_rate (u_f (env st)) u_s tau_GR itc
          (inflation_rate (env st)) (discount_rate L u_s st) = Inr rho \<and>
        map_of out k = Some inner \<and>
        map_of inner ''rho'' = Some rho \<and>
        map_of inner ''metr'' =
          Some (eq_metr L rho (discount_rate_prime L st) (inflation_rate (env st))) \<and>
        map_of inner ''eatr'' =
          Some (eq_eatr L rho
                  (eq_metr L rho (discount_rate_prime L st) (inflation_rate (env st)))
                  (profit_rate (env st)) (u_f (env st) + u_s - u_f (env st) * u_s)))"

section \<open>The module's parameters\<close>

text \<open>
  Lines 50 to 69. In the script the three calls pass the module-level dictionaries
  \<^verbatim>\<open>bonus_s\<close> and \<^verbatim>\<open>inv_tax_credit_s\<close>: they are the fields \<open>bonus_s\<close> and
  \<open>inv_tax_credit\<close> of the module's environment.
\<close>

definition module_env :: environment where
  "module_env =
     \<lparr>inflation_rate = 0.02,
      nominal_int_rate = 0.06,
      fraction_financed_w_debt = 0.0,
      federal_bonus_depreciation =
        [(''machines'', 0.4), (''buildings'', 0.0), (''intangibles'', 0.4)],
      depreciation_rates =
        [(''machines'', 0.1031), (''buildings'', 0.0314), (''intangibles'', 0.33)],
      depreciation_lives = [(''machines'', 7), (''buildings'', 39), (''intangibles'', 3)],
      depreciation_methods =
        [(''machines'', ''dbsl''), (''buildings'', ''sl''), (''intangibles'', ''sl'')],
      E = 0.06,
      profit_rate = 0.2,
      int_haircut = 0.0,
      u_f = 0.21,
      bonus_s = [(''machines'', 0.0), (''buildings'', 0.0), (''intangibles'', 0.0)],
      inv_tax_credit =
        [(''machines'', 0.015), (''buildings'', 0.025), (''intangibles'', 0.01)]\<rparr>"

definition u_s :: real where
  "u_s = 0.043"

definition franchise_tax_rate :: real where
  "franchise_tax_rate = 0.003"

definition tau_GR :: real where
  "tau_GR = 0.00"

definition u_s_ref1 :: real where
  "u_s_ref1 = 0.035"

definition franchise_tax_rate_ref2 :: real where
  "franchise_tax_rate_ref2 = 0.000"

definition initial_state :: state where
  "initial_state = \<lparr>env = module_env, stdout = []\<rparr>"

text \<open>
  Instances of the parameters, used to evaluate the model at concrete inputs. The first
  is Python's plain floats on inputs whose denominators are evaluated without rounding:
  a denominator 0.0 raises, any other gives the quotient. The second adds a library to
  it; its formulas are simple stand-ins with the right signatures, not those of
  \<^verbatim>\<open>ccc\<close>. No statement about the program depends on them.
\<close>

definition python_floats :: floats where
  "python_floats =
     \<lparr>inner_raises = (\<lambda>n u_f u_s. 1 - u_f - u_s + u_f * u_s = 0),
      inner_value = (\<lambda>n u_f u_s. n / (1 - u_f - u_s + u_f * u_s)),
      outer_raises = (\<lambda>n. True),
      outer_value = (\<lambda>n. 0)\<rparr>"

definition sample_library :: library where
  "sample_library =
     \<lparr>inner_raises = (\<lambda>n u_f u_s. 1 - u_f - u_s + u_f * u_s = 0),
      inner_value = (\<lambda>n u_f u_s. n / (1 - u_f - u_s + u_f * u_s)),
      outer_raises = (\<lambda>n. True),
      outer_value = (\<lambda>n. 0),
      calc_r = (\<lambda>u nom infl ace f hc e a. f * nom * (1 - u) + (1 - f) * (e + infl)),
      calc_r_prime = (\<lambda>nom infl f e. f * nom + (1 - f) * (e + infl)),
      dbsl = (\<lambda>Y b bonus r. bonus + (1 - bonus) / (1 + r * of_int Y / of_int b)),
      sl = (\<lambda>Y bonus r. bonus + (1 - bonus) / (1 + r * of_int Y)),
      eq_metr = (\<lambda>rho r' infl. (rho - (r' - infl)) / rho),
      eq_eatr = (\<lambda>rho metr p u. ((p - rho) / p) * u + (rho / p) * metr)\<rparr>"

text \<open>
  The same library computing with numpy floats: no division raises, and a division by
  0.0 returns a non-finite value (here an arbitrary number).
\<close>

definition sample_numpy_library :: library where
  "sample_numpy_library =
     sample_library\<lparr>inner_raises := (\<lambda>n u_f u_s. False), outer_raises := (\<lambda>n. False)\<rparr>"

section \<open>The reporting pipeline\<close>

text \<open>
  The script records nothing about its calls; for the statements about them the model
  keeps a log of the arguments of every call of \<^verbatim>\<open>compute_outputs\<close>, in the order
  \<^verbatim>\<open>(u_s, bonus_s, franchise_tax_rate, tau_GR, inv_tax_credit)\<close>.
\<close>

type_synonym call = "real \<times> real dict \<times> real \<times> real \<times> real dict"

definition invoke ::
  "library \<Rightarrow> real \<Rightarrow> real \<Rightarrow> real \<Rightarrow> state \<times> call list \<Rightarrow>
     (error + out_dict) \<times> state \<times> call list" where
  "invoke L a_u_s a_franchise_tax_rate a_tau_GR =
     (\<lambda>(st, calls).
        case compute_outputs L a_u_s a_franchise_tax_rate a_tau_GR st of
          (res, st') \<Rightarrow>
            (res, st',
             calls @ [(a_u_s, bonus_s (env st), a_franchise_tax_rate, a_tau_GR,
                     inv_tax_credit (env st))]))"

text \<open>
  Modelled from the spec: the table operations of \<^verbatim>\<open>pandas\<close>, which is not part of
  the repository. The specification (sections 2, 3 and 4.4) describes the result table as
  rows = output metric, columns = asset type, one table per scenario, labelled with a
  policy name, stacked vertically and reshaped to long form with columns Policy,
  output_var, asset_type and value. A table is a list of row labels and a dictionary of
  columns of equal length; a missing entry is \<open>NaN\<close>.
\<close>

datatype cell = Num real | Str string | NaN

datatype label = Name string | Row nat

record dataframe =
  index :: "label list"
  columns :: "cell list dict"

fun unique :: "string list \<Rightarrow> string list" where
  "unique [] = []"
| "unique (x # xs) = x # filter (\<lambda>y. y \<noteq> x) (unique xs)"

text \<open>
  Modelled from the spec: \<^verbatim>\<open>pd.DataFrame(d)\<close> for a dictionary of dictionaries. The
  outer keys are the columns, the inner keys the rows.
\<close>

definition DataFrame :: "out_dict \<Rightarrow> dataframe" where
  "DataFrame d =
     (let rows = unique (concat (map (\<lambda>(c, inner). keys inner) d))
      in \<lparr>index = map Name rows,
          columns =
            map (\<lambda>(c, inner).
                   (c, map (\<lambda>i. case map_of inner i of None \<Rightarrow> NaN | Some v \<Rightarrow> Num v) rows))
              d\<rparr>)"

text \<open>Modelled from the spec: \<^verbatim>\<open>df[name] = v\<close> for a scalar \<open>v\<close>.\<close>

definition set_column :: "dataframe \<Rightarrow> string \<Rightarrow> cell \<Rightarrow> dataframe" where
  "set_column df name v =
     df\<lparr>columns := dict_set (columns df) name (replicate (length (index df)) v)\<rparr>"

definition column :: "dataframe \<Rightarrow> string \<Rightarrow> cell list" where
  "column df c =
     (case map_of (columns df) c of
        None \<Rightarrow> replicate (length (index df)) NaN
      | Some vs \<Rightarrow> vs)"

text \<open>
  Modelled from the spec: \<^verbatim>\<open>pd.concat(dfs)\<close>, the tables stacked vertically over the
  union of their columns.
\<close>

definition pd_concat :: "dataframe list \<Rightarrow> dataframe" where
  "pd_concat dfs =
     \<lparr>index = concat (map index dfs),
      columns =
        map (\<lambda>c. (c, concat (map (\<lambda>df. column df c) dfs)))
          (unique (concat (map (\<lambda>df. keys (columns df)) dfs)))\<rparr>"

fun label_cell :: "label \<Rightarrow> cell" where
  "label_cell (Name s) = Str s"
| "label_cell (Row n) = Num (real n)"

text \<open>
  Modelled from the spec: \<^verbatim>\<open>df.reset_index()\<close>. The row labels become the first
  column, named \<^verbatim>\<open>index\<close> (or \<^verbatim>\<open>level_0\<close> when that name is taken), and the rows
  are numbered from 0.
\<close>

definition reset_index :: "dataframe \<Rightarrow> dataframe" where
  "reset_index df =
     \<lparr>index = map Row [0..<length (index df)],
      columns =
        (if ''index'' \<in> set (keys (columns df)) then ''level_0'' else ''index'',
         map label_cell (index df)) # columns df\<rparr>"

text \<open>Modelled from the spec: \<^verbatim>\<open>df.rename(columns=m)\<close>.\<close>

definition rename_columns :: "dataframe \<Rightarrow> string dict \<Rightarrow> dataframe" where
  "rename_columns df m =
     df\<lparr>columns :=
          map (\<lambda>(c, vs). (case map_of m c of None \<Rightarrow> c | Some c' \<Rightarrow> c', vs)) (columns df)\<rparr>"

text \<open>
  Modelled from the spec: \<^verbatim>\<open>pd.melt(df, id_vars, var_name)\<close>. Every column that is
  not an identifier becomes a block of rows: the identifier columns repeated, the name
  of the column under \<open>var_name\<close>, its entries under \<^verbatim>\<open>value\<close>. An identifier that
  is not a column is a \<^verbatim>\<open>KeyError\<close>.
\<close>

definition melt :: "dataframe \<Rightarrow> string list \<Rightarrow> string \<Rightarrow> error + dataframe" where
  "melt df id_vars var_name =
     (case filter (\<lambda>c. c \<notin> set (keys (columns df))) id_vars of
        c # _ \<Rightarrow> Inl (KeyError c)
      | [] \<Rightarrow>
          (let value_vars = filter (\<lambda>c. c \<notin> set id_vars) (keys (columns df));
               n = length (index df)
           in Inr \<lparr>index = map Row [0..<n * length value_vars],
                   columns =
                     map (\<lambda>c. (c, concat (replicate (length value_vars) (column df c))))
                       id_vars
                     @ [(var_name, concat (map (\<lambda>v. replicate n (Str v)) value_vars)),
                        (''value'', concat (map (\<lambda>v. column df v) value_vars))]\<rparr>))"

text \<open>
  Lines 120 to 149: the three calls, then the table. An exception of a call ends the
  script.
\<close>

definition script ::
  "library \<Rightarrow> state \<times> call list \<Rightarrow> (error + dataframe) \<times> state \<times> call list" where
  "script L s0 =
     (case invoke L u_s franchise_tax_rate tau_GR s0 of
        (Inl e, s1) \<Rightarrow> (Inl e, s1)
      | (Inr base, s1) \<Rightarrow>
     (case invoke L u_s_ref1 franchise_tax_rate tau_GR s1 of
        (Inl e, s2) \<Rightarrow> (Inl e, s2)
      | (Inr ar_citcut, s2) \<Rightarrow>
     (case invoke L u_s franchise_tax_rate_ref2 tau_GR s2 of
        (Inl e, s3) \<Rightarrow> (Inl e, s3)
      | (Inr ar_frtaxrmv, s3) \<Rightarrow>
          (let base_df = set_column (DataFrame base) ''Policy'' (Str ''Current Law'');
               ar_citcut_df =
                 set_column (DataFrame ar_citcut) ''Policy''
                   (Str ''Lower AR CIT rate to 3.5%'');
               ar_frtaxrmv_df =
                 set_column (DataFrame ar_frtaxrmv) ''Policy''
                   (Str ''Remove AR franchise tax'');
               df = pd_concat [base_df, ar_citcut_df, ar_frtaxrmv_df];
               df = reset_index df;
               df = rename_columns df [(''index'', ''output_var'')]
           in (melt df [''Policy'', ''output_var''] ''asset_type'', s3)))))"

text \<open>
  The policy labels and the metric names of the nine rows of the stacked table, in
  order.
\<close>

definition stacked_policy :: "cell list" where
  "stacked_policy =
     [Str ''Current Law'', Str ''Current Law'', Str ''Current Law'',
      Str ''Lower AR CIT rate to 3.5%'', Str ''Lower AR CIT rate to 3.5%'',
      Str ''Lower AR CIT rate to 3.5%'',
      Str ''Remove AR franchise tax'', Str ''Remove AR franchise tax'',
      Str ''Remove AR franchise tax'']"

definition stacked_output_var :: "cell list" where
  "stacked_output_var =
     [Str ''rho'', Str ''metr'', Str ''eatr'', Str ''rho'', Str ''metr'', Str ''eatr'',
      Str ''rho'', Str ''metr'', Str ''eatr'']"

text \<open>The arguments of a logged call.\<close>

definition call_u_s :: "call \<Rightarrow> real" where
  "call_u_s c = fst c"

definition call_bonus_s :: "call \<Rightarrow> real dict" where
  "call_bonus_s c = fst (snd c)"

definition call_franchise_tax_rate :: "call \<Rightarrow> real" where
  "call_franchise_tax_rate c = fst (snd (snd c))"

definition call_tau_GR :: "call \<Rightarrow> real" where
  "call_tau_GR c = fst (snd (snd (snd c)))"

definition call_inv_tax_credit :: "call \<Rightarrow> real dict" where
  "call_inv_tax_credit c = snd (snd (snd (snd c)))"

text \<open>The key of every row of a long-form table.\<close>

definition row_keys :: "dataframe \<Rightarrow> (cell \<times> cell \<times> cell) list" where
  "row_keys df =
     zip (column df ''Policy'') (zip (column df ''output_var'') (column df ''asset_type''))"

text \<open>The names that key the rows of the final table.\<close>

definition policy_names :: "string list" where
  "policy_names =
     [''Current Law'', ''Lower AR CIT rate to 3.5%'', ''Remove AR franchise tax'']"

definition output_names :: "string list" where
  "output_names = [''rho'', ''metr'', ''eatr'']"

definition asset_names :: "string list" where
  "asset_names = [''machines'', ''buildings'', ''intangibles'']"

section \<open>Two misconfigured states\<close>

text \<open>
  The module's configuration with an unknown method name for buildings, the second
  asset of the loop; and the same with a \<^verbatim>\<open>bonus_s\<close> argument that lacks the key of
  the first asset.
\<close>

definition unknown_method_state :: state where
  "unknown_method_state =
     \<lparr>env = module_env
        \<lparr>depreciation_methods :=
           [(''machines'', ''dbsl''), (''buildings'', ''ddb''), (''intangibles'', ''sl'')]\<rparr>,
      stdout = []\<rparr>"

definition unknown_method_missing_key_state :: state where
  "unknown_method_missing_key_state =
     \<lparr>env = module_env
        \<lparr>depreciation_methods :=
           [(''machines'', ''dbsl''), (''buildings'', ''ddb''), (''intangibles'', ''sl'')],
         bonus_s := [(''buildings'', 0), (''intangibles'', 0)]\<rparr>,
      stdout = []\<rparr>"

section \<open>Basic facts about dictionaries and exceptions\<close>

lemma bind_Inl_iff:
  "bind m f = Inl e \<longleftrightarrow> m = Inl e \<or> (\<exists>v. m = Inr v \<and> f v = Inl e)"
  by (cases m) (simp_all add: bind_def)

lemma bind_Inr_iff:
  "bind m f = Inr y \<longleftrightarrow> (\<exists>v. m = Inr v \<and> f v = Inr y)"
  by (cases m) (simp_all add: bind_def)

lemma bind_Inr [simp]: "bind (Inr v) f = f v"
  by (simp add: bind_def)

lemma bind_Inl [simp]: "bind (Inl e) f = Inl e"
  by (simp add: bind_def)

lemma dict_get_Inl_iff:
  "dict_get d k = Inl e \<longleftrightarrow> map_of d k = None \<and> e = KeyError k"
  by (auto simp add: dict_get_def split: option.splits)

lemma dict_get_Inr_iff:
  "dict_get d k = Inr v \<longleftrightarrow> map_of d k = Some v"
  by (auto simp add: dict_get_def split: option.splits)

lemma map_of_dict_set: "map_of (dict_set d k v) = (map_of d)(k \<mapsto> v)"
  by (induction d) (auto simp add: fun_eq_iff)

lemma keys_dict_set: "k \<in> set (keys d) \<Longrightarrow> keys (dict_set d k v) = keys d"
proof (induction d)
  case Nil
  then show ?case by (simp add: keys_def)
next
  case (Cons p d)
  obtain k' v' where p: "p = (k', v')" by (cases p)
  show ?case
  proof (cases "k' = k")
    case True
    then show ?thesis by (simp add: p keys_def)
  next
    case False
    with Cons.prems p have "k \<in> set (keys d)" by (auto simp add: keys_def)
    then have "keys (dict_set d k v) = keys d" by (rule Cons.IH)
    with False show ?thesis by (simp add: p keys_def)
  qed
qed

lemma map_of_None_iff_keys: "map_of d k = None \<longleftrightarrow> k \<notin> set (keys d)"
  by (simp add: keys_def map_of_eq_None_iff)

lemma eq_coc_state_Inl:
  assumes "eq_coc_state F delta z_f z_s w uf us tau itc p r = Inl e"
  shows "e = ZeroDivisionError" and "may_raise F uf us tau"
  using assms
  by (auto simp add: eq_coc_state_def float_div_def bind_def may_raise_def split: if_splits)

lemma eq_coc_state_returns:
  assumes "\<not> may_raise F uf us tau"
  shows "\<exists>rho. eq_coc_state F delta z_f z_s w uf us tau itc p r = Inr rho"
proof (cases "eq_coc_state F delta z_f z_s w uf us tau itc p r")
  case (Inl e)
  from eq_coc_state_Inl(2) [OF this] assms show ?thesis by simp
next
  case (Inr rho)
  then show ?thesis by simp
qed

lemma eq_coc_state_Inr:
  assumes "eq_coc_state F delta z_f z_s w uf us tau itc p r = Inr rho"
    and "rounding_bound uf us < \<bar>1 - uf - us + uf * us\<bar>" and "tau \<noteq> 1"
  shows "rho = rho_formula delta z_f z_s w uf us tau itc p r"
  using assms
  by (auto simp add: eq_coc_state_def float_div_def bind_def rho_formula_def inner_zero_def
      outer_zero_def split: if_splits)

lemma not_may_raise_far:
  assumes "rounding_bound uf us < \<bar>1 - uf - us + uf * us\<bar>" and "tau \<noteq> 1"
  shows "\<not> may_raise F uf us tau"
  using assms
  by (simp add: may_raise_def inner_zero_division_def outer_zero_division_def inner_zero_def
      outer_zero_def)

lemma eq_coc_state_mono_w:
  assumes "eq_coc_state F delta z_f z_s w1 uf us tau itc p r = Inr rho1"
    and "eq_coc_state F delta z_f z_s w2 uf us tau itc p r = Inr rho2"
    and "w2 < w1" and "tau < 1"
  shows "rho2 < rho1"
proof -
  define q where "q = (if inner_zero uf us then inner_value F (r - p + delta) uf us
      else (r - p + delta) / (1 - uf - us + uf * us))"
  define x where "x = q * (1 - itc - uf * z_f - us * z_s + uf * us * z_s)"
  from assms(4) have t: "\<not> outer_zero tau" "0 < 1 - tau" by (simp_all add: outer_zero_def)
  from assms(1) t(1) have r1: "rho1 = (x + w1) / (1 - tau) - delta"
    by (auto simp add: eq_coc_state_def float_div_def bind_def q_def x_def split: if_splits)
  from assms(2) t(1) have r2: "rho2 = (x + w2) / (1 - tau) - delta"
    by (auto simp add: eq_coc_state_def float_div_def bind_def q_def x_def split: if_splits)
  from assms(3) t(2) show ?thesis
    unfolding r1 r2 by (simp add: divide_strict_right_mono)
qed

lemma store_not_assert: "store out k name v \<noteq> Inl AssertionError"
  by (simp add: store_def bind_Inl_iff dict_get_Inl_iff)

lemma store_Inr_iff:
  "store out k name v = Inr out' \<longleftrightarrow>
     (\<exists>inner. map_of out k = Some inner \<and> out' = dict_set out k (dict_set inner name v))"
  by (auto simp add: store_def bind_Inr_iff dict_get_Inr_iff)

lemma store_ok:
  "k \<in> set (keys out) \<Longrightarrow>
   \<exists>out'. store out k name v = Inr out' \<and> keys out' = keys out \<and>
     (\<forall>k'. k' \<noteq> k \<longrightarrow> map_of out' k' = map_of out k') \<and>
     (\<exists>inner inner'. map_of out k = Some inner \<and> map_of out' k = Some inner' \<and>
        map_of inner' = (map_of inner)(name \<mapsto> v))"
proof -
  assume k: "k \<in> set (keys out)"
  then obtain inner where inner: "map_of out k = Some inner"
    using map_of_None_iff_keys [of out k] by (cases "map_of out k") auto
  show ?thesis
    using inner k
    by (simp add: store_Inr_iff keys_dict_set map_of_dict_set)
qed

lemma store_fails: "k \<notin> set (keys out) \<Longrightarrow> store out k name v = Inl (KeyError k)"
  by (simp add: store_def dict_get_def map_of_None_iff_keys [symmetric])

section \<open>One iteration of the loop\<close>

lemma loop_body_alt:
  "loop_body L us w tau k out st =
     (case select_z L k (discount_rate L us st) st of
        (Inl e, st') \<Rightarrow> (Inl e, st')
      | (Inr (z_f, z_s), st') \<Rightarrow>
          (outputs L us w tau k (discount_rate L us st) (discount_rate_prime L st)
             z_f z_s out st', st'))"
  unfolding loop_body_def Let_def discount_rate_def discount_rate_prime_def
  by (rule refl)

lemma loop_body_hoisted_eq:
  "loop_body_hoisted L us w tau (discount_rate L us st) (discount_rate_prime L st) k out st =
   loop_body L us w tau k out st"
  by (simp add: loop_body_alt loop_body_hoisted_def)

lemma outputs_not_assert:
  "outputs L us w tau k r r' z_f z_s out st \<noteq> Inl AssertionError"
  by (auto simp add: outputs_def Let_def bind_Inl_iff dict_get_Inl_iff store_not_assert
      dest: eq_coc_state_Inl(1))

lemma select_z_unrecognised:
  "unrecognised st k \<Longrightarrow>
   select_z L k r st = (Inl AssertionError, st\<lparr>stdout := stdout st @ [diagnostic]\<rparr>)"
  by (auto simp add: unrecognised_def select_z_def dict_get_def split: option.splits)

lemma select_z_recognised:
  "\<not> unrecognised st k \<Longrightarrow>
   snd (select_z L k r st) = st \<and> fst (select_z L k r st) \<noteq> Inl AssertionError"
  by (auto simp add: unrecognised_def select_z_def dict_get_def bind_Inl_iff
      split: option.splits)

lemma select_z_Inr:
  assumes "select_z L k r st = (Inr (z_f, z_s), st')"
  shows "st' = st \<and>
    (\<exists>Y b_f b_s.
       map_of (depreciation_lives (env st)) k = Some Y \<and>
       map_of (federal_bonus_depreciation (env st)) k = Some b_f \<and>
       map_of (bonus_s (env st)) k = Some b_s \<and>
       (map_of (depreciation_methods (env st)) k = Some ''dbsl'' \<and>
          z_f = dbsl L Y 2 b_f r \<and> z_s = dbsl L Y 2 b_s r \<or>
        map_of (depreciation_methods (env st)) k = Some ''sl'' \<and>
          z_f = sl L Y b_f r \<and> z_s = sl L Y b_s r))"
proof (cases "map_of (depreciation_methods (env st)) k")
  case None
  with assms show ?thesis by (simp add: select_z_def dict_get_def)
next
  case (Some m)
  show ?thesis
  proof (cases "m = ''dbsl''")
    case True
    with Some assms show ?thesis
      by (auto simp add: select_z_def dict_get_def bind_Inr_iff split: option.splits)
  next
    case False
    show ?thesis
    proof (cases "m = ''sl''")
      case True
      with Some assms show ?thesis
        by (auto simp add: select_z_def dict_get_def bind_Inr_iff split: option.splits)
    next
      case False
      with \<open>m \<noteq> ''dbsl''\<close> Some assms show ?thesis
        by (simp add: select_z_def dict_get_def)
    qed
  qed
qed

lemma loop_body_unrecognised:
  "unrecognised st k \<Longrightarrow>
   loop_body L us w tau k out st =
     (Inl AssertionError, st\<lparr>stdout := stdout st @ [diagnostic]\<rparr>)"
  by (simp add: loop_body_alt select_z_unrecognised)

lemma loop_body_recognised:
  assumes "\<not> unrecognised st k"
  shows "snd (loop_body L us w tau k out st) = st"
    and "fst (loop_body L us w tau k out st) \<noteq> Inl AssertionError"
proof -
  let ?r = "discount_rate L us st"
  obtain res st' where sz: "select_z L k ?r st = (res, st')"
    by (cases "select_z L k ?r st")
  with select_z_recognised [OF assms, of L ?r]
  have st': "st' = st" and res: "res \<noteq> Inl AssertionError"
    by simp_all
  show "snd (loop_body L us w tau k out st) = st"
    using sz st' by (simp add: loop_body_alt split: sum.splits prod.splits)
  show "fst (loop_body L us w tau k out st) \<noteq> Inl AssertionError"
    using sz st' res
    by (auto simp add: loop_body_alt outputs_not_assert split: sum.splits prod.splits)
qed

lemma loop_body_Inr_state:
  assumes "loop_body L us w tau k out st = (Inr out', st')"
  shows "st' = st"
proof (cases "unrecognised st k")
  case True
  with assms show ?thesis by (simp add: loop_body_unrecognised)
next
  case False
  from loop_body_recognised(1) [OF False, of L us w tau out] assms show ?thesis by simp
qed

lemma loop_body_env: "env (snd (loop_body L us w tau k out st)) = env st"
proof (cases "unrecognised st k")
  case True
  then show ?thesis by (simp add: loop_body_unrecognised)
next
  case False
  then show ?thesis by (simp add: loop_body_recognised(1))
qed

lemma store_Inr:
  assumes "store out k name v = Inr out'"
  shows "k \<in> set (keys out) \<and> keys out' = keys out \<and>
     (\<forall>k'. k' \<noteq> k \<longrightarrow> map_of out' k' = map_of out k') \<and>
     (\<exists>inner inner'. map_of out k = Some inner \<and> map_of out' k = Some inner' \<and>
        map_of inner' = (map_of inner)(name \<mapsto> v))"
proof -
  from assms obtain inner where inner: "map_of out k = Some inner"
    and out': "out' = dict_set out k (dict_set inner name v)"
    by (auto simp add: store_Inr_iff)
  from inner have k: "k \<in> set (keys out)"
    using map_of_None_iff_keys [of out k] by auto
  show ?thesis
    using inner k by (simp add: out' keys_dict_set map_of_dict_set)
qed

lemma outputs_Inr:
  assumes "outputs L us w tau k r r' z_f z_s out st = Inr out'"
  shows "\<exists>delta itc rho inner.
     map_of (depreciation_rates (env st)) k = Some delta \<and>
     map_of (inv_tax_credit (env st)) k = Some itc \<and>
     eq_coc_state L delta z_f z_s w (u_f (env st)) us tau itc (inflation_rate (env st)) r
       = Inr rho \<and>
     map_of out' k = Some inner \<and>
     map_of inner ''rho'' = Some rho \<and>
     map_of inner ''metr'' = Some (eq_metr L rho r' (inflation_rate (env st))) \<and>
     map_of inner ''eatr'' =
       Some (eq_eatr L rho (eq_metr L rho r' (inflation_rate (env st)))
               (profit_rate (env st)) (u_f (env st) + us - u_f (env st) * us))"
    and "k \<in> set (keys out) \<and> keys out' = keys out \<and>
     (\<forall>k'. k' \<noteq> k \<longrightarrow> map_of out' k' = map_of out k')"
proof -
  let ?pi = "inflation_rate (env st)"
  from assms obtain delta itc rho out1 out2 where
    delta: "map_of (depreciation_rates (env st)) k = Some delta" and
    itc: "map_of (inv_tax_credit (env st)) k = Some itc" and
    rho: "eq_coc_state L delta z_f z_s w (u_f (env st)) us tau itc ?pi r = Inr rho" and
    s1: "store out k ''rho'' rho = Inr out1" and
    s2: "store out1 k ''metr'' (eq_metr L rho r' ?pi) = Inr out2" and
    s3: "store out2 k ''eatr''
           (eq_eatr L rho (eq_metr L rho r' ?pi) (profit_rate (env st))
              (u_f (env st) + us - u_f (env st) * us)) = Inr out'"
    by (auto simp add: outputs_def Let_def bind_Inr_iff dict_get_Inr_iff)
  note f1 = store_Inr [OF s1] and f2 = store_Inr [OF s2] and f3 = store_Inr [OF s3]
  from f1 f2 f3 show "k \<in> set (keys out) \<and> keys out' = keys out \<and>
     (\<forall>k'. k' \<noteq> k \<longrightarrow> map_of out' k' = map_of out k')"
    by simp
  from f1 obtain i0 i1 where i1: "map_of out1 k = Some i1"
    "map_of i1 = (map_of i0)(''rho'' \<mapsto> rho)" by blast
  from f2 i1 obtain i2 where i2: "map_of out2 k = Some i2"
    "map_of i2 = (map_of i1)(''metr'' \<mapsto> eq_metr L rho r' ?pi)" by auto
  from f3 i2 obtain i3 where i3: "map_of out' k = Some i3"
    "map_of i3 = (map_of i2)(''eatr'' \<mapsto> eq_eatr L rho (eq_metr L rho r' ?pi)
        (profit_rate (env st)) (u_f (env st) + us - u_f (env st) * us))" by auto
  from i1 i2 i3 have
    "map_of i3 ''rho'' = Some rho"
    "map_of i3 ''metr'' = Some (eq_metr L rho r' ?pi)"
    "map_of i3 ''eatr'' = Some (eq_eatr L rho (eq_metr L rho r' ?pi)
        (profit_rate (env st)) (u_f (env st) + us - u_f (env st) * us))"
    by simp_all
  with delta itc rho i3(1) show "\<exists>delta itc rho inner.
     map_of (depreciation_rates (env st)) k = Some delta \<and>
     map_of (inv_tax_credit (env st)) k = Some itc \<and>
     eq_coc_state L delta z_f z_s w (u_f (env st)) us tau itc (inflation_rate (env st)) r
       = Inr rho \<and>
     map_of out' k = Some inner \<and>
     map_of inner ''rho'' = Some rho \<and>
     map_of inner ''metr'' = Some (eq_metr L rho r' (inflation_rate (env st))) \<and>
     map_of inner ''eatr'' =
       Some (eq_eatr L rho (eq_metr L rho r' (inflation_rate (env st)))
               (profit_rate (env st)) (u_f (env st) + us - u_f (env st) * us))"
    by blast
qed

lemma outputs_ok:
  assumes "map_of (depreciation_rates (env st)) k = Some delta"
    and "map_of (inv_tax_credit (env st)) k = Some itc"
    and "eq_coc_state L delta z_f z_s w (u_f (env st)) us tau itc (inflation_rate (env st)) r
           = Inr rho"
    and "k \<in> set (keys out)"
  shows "\<exists>out'. outputs L us w tau k r r' z_f z_s out st = Inr out' \<and> keys out' = keys out"
proof -
  from assms(1,2) have
    d: "dict_get (depreciation_rates (env st)) k = Inr delta" and
    i: "dict_get (inv_tax_credit (env st)) k = Inr itc"
    by (simp_all add: dict_get_def)
  let ?metr = "eq_metr L rho r' (inflation_rate (env st))"
  let ?eatr = "eq_eatr L rho ?metr (profit_rate (env st)) (u_f (env st) + us - u_f (env st) * us)"
  from store_ok [OF assms(4), of "''rho''" rho] obtain o1 where
    o1: "store out k ''rho'' rho = Inr o1" "keys o1 = keys out" by blast
  from store_ok [of k o1 "''metr''" ?metr] o1(2) assms(4) obtain o2 where
    o2: "store o1 k ''metr'' ?metr = Inr o2" "keys o2 = keys out" by auto
  from store_ok [of k o2 "''eatr''" ?eatr] o2(2) assms(4) obtain o3 where
    o3: "store o2 k ''eatr'' ?eatr = Inr o3" "keys o3 = keys out" by auto
  show ?thesis
    using d i assms(3) o1 o2 o3
    by (simp add: outputs_def Let_def)
qed

lemma outputs_raises:
  assumes "map_of (depreciation_rates (env st)) k = Some delta"
    and "map_of (inv_tax_credit (env st)) k = Some itc"
    and "eq_coc_state L delta z_f z_s w (u_f (env st)) us tau itc (inflation_rate (env st)) r
           = Inl e"
  shows "outputs L us w tau k r r' z_f z_s out st = Inl ZeroDivisionError"
proof -
  from assms(1,2) have
    "dict_get (depreciation_rates (env st)) k = Inr delta"
    "dict_get (inv_tax_credit (env st)) k = Inr itc"
    by (simp_all add: dict_get_def)
  with assms(3) eq_coc_state_Inl(1) [OF assms(3)] show ?thesis
    by (simp add: outputs_def)
qed

lemma routed_cong:
  "map_of out1 k = map_of out2 k \<Longrightarrow>
   routed L us w tau st k out1 = routed L us w tau st k out2"
  by (simp add: routed_def)

lemma loop_body_Inr:
  assumes "loop_body L us w tau k out st = (Inr out', st')"
  shows "st' = st" and "routed L us w tau st k out'"
    and "k \<in> set (keys out) \<and> keys out' = keys out \<and>
         (\<forall>k'. k' \<noteq> k \<longrightarrow> map_of out' k' = map_of out k')"
proof -
  let ?r = "discount_rate L us st" and ?r' = "discount_rate_prime L st"
  show st': "st' = st" using assms by (rule loop_body_Inr_state)
  obtain res st1 where sz: "select_z L k ?r st = (res, st1)"
    by (cases "select_z L k ?r st")
  with assms obtain z_f z_s where res: "res = Inr (z_f, z_s)"
    by (cases res) (auto simp add: loop_body_alt)
  from select_z_Inr [OF sz [unfolded res]] have st1: "st1 = st" and
    sel: "\<exists>Y b_f b_s.
       map_of (depreciation_lives (env st)) k = Some Y \<and>
       map_of (federal_bonus_depreciation (env st)) k = Some b_f \<and>
       map_of (bonus_s (env st)) k = Some b_s \<and>
       (map_of (depreciation_methods (env st)) k = Some ''dbsl'' \<and>
          z_f = dbsl L Y 2 b_f ?r \<and> z_s = dbsl L Y 2 b_s ?r \<or>
        map_of (depreciation_methods (env st)) k = Some ''sl'' \<and>
          z_f = sl L Y b_f ?r \<and> z_s = sl L Y b_s ?r)"
    by simp_all
  from assms [unfolded st'] sz res st1
  have outp: "outputs L us w tau k ?r ?r' z_f z_s out st = Inr out'"
    by (simp add: loop_body_alt)
  from outputs_Inr(2) [OF outp] show "k \<in> set (keys out) \<and> keys out' = keys out \<and>
         (\<forall>k'. k' \<noteq> k \<longrightarrow> map_of out' k' = map_of out k')" .
  from outputs_Inr(1) [OF outp] sel show "routed L us w tau st k out'"
    unfolding routed_def by blast
qed

lemma select_z_eval:
  assumes "map_of (depreciation_methods (env st)) k = Some m"
    and "m = ''dbsl'' \<or> m = ''sl''"
    and "map_of (depreciation_lives (env st)) k = Some Y"
    and "map_of (federal_bonus_depreciation (env st)) k = Some b_f"
    and "map_of (bonus_s (env st)) k = Some b_s"
  shows "select_z L k r st =
     (Inr (if m = ''dbsl'' then dbsl L Y 2 b_f r else sl L Y b_f r,
           if m = ''dbsl'' then dbsl L Y 2 b_s r else sl L Y b_s r), st)"
  using assms by (auto simp add: select_z_def dict_get_def)

lemma asset_rho_SomeD:
  assumes "asset_rho L us w tau st k = Some res"
  shows "\<exists>m Y b_f b_s delta itc.
     map_of (depreciation_methods (env st)) k = Some m \<and> (m = ''dbsl'' \<or> m = ''sl'') \<and>
     map_of (depreciation_lives (env st)) k = Some Y \<and>
     map_of (federal_bonus_depreciation (env st)) k = Some b_f \<and>
     map_of (bonus_s (env st)) k = Some b_s \<and>
     map_of (depreciation_rates (env st)) k = Some delta \<and>
     map_of (inv_tax_credit (env st)) k = Some itc \<and>
     res = eq_coc_state L delta
             (if m = ''dbsl'' then dbsl L Y 2 b_f (discount_rate L us st)
              else sl L Y b_f (discount_rate L us st))
             (if m = ''dbsl'' then dbsl L Y 2 b_s (discount_rate L us st)
              else sl L Y b_s (discount_rate L us st))
             w (u_f (env st)) us tau itc (inflation_rate (env st)) (discount_rate L us st)"
  using assms by (auto simp add: asset_rho_def split: option.splits if_splits)

lemma asset_rho_eq:
  assumes "map_of (depreciation_methods (env st)) k = Some m"
    and "m = ''dbsl'' \<or> m = ''sl''"
    and "map_of (depreciation_lives (env st)) k = Some Y"
    and "map_of (federal_bonus_depreciation (env st)) k = Some b_f"
    and "map_of (bonus_s (env st)) k = Some b_s"
    and "map_of (depreciation_rates (env st)) k = Some delta"
    and "map_of (inv_tax_credit (env st)) k = Some itc"
  shows "asset_rho L us w tau st k =
     Some (eq_coc_state L delta
             (if m = ''dbsl'' then dbsl L Y 2 b_f (discount_rate L us st)
              else sl L Y b_f (discount_rate L us st))
             (if m = ''dbsl'' then dbsl L Y 2 b_s (discount_rate L us st)
              else sl L Y b_s (discount_rate L us st))
             w (u_f (env st)) us tau itc (inflation_rate (env st)) (discount_rate L us st))"
  using assms by (auto simp add: asset_rho_def)

lemma loop_body_asset_rho:
  assumes "asset_rho L us w tau st k = Some res" and "k \<in> set (keys out)"
  shows "case res of
           Inl e \<Rightarrow> loop_body L us w tau k out st = (Inl ZeroDivisionError, st)
         | Inr rho \<Rightarrow>
             (\<exists>out'. loop_body L us w tau k out st = (Inr out', st) \<and> keys out' = keys out)"
proof -
  let ?r = "discount_rate L us st" and ?r' = "discount_rate_prime L st"
  from asset_rho_SomeD [OF assms(1)] obtain m Y b_f b_s delta itc where
    m: "map_of (depreciation_methods (env st)) k = Some m" "m = ''dbsl'' \<or> m = ''sl''" and
    l: "map_of (depreciation_lives (env st)) k = Some Y"
      "map_of (federal_bonus_depreciation (env st)) k = Some b_f"
      "map_of (bonus_s (env st)) k = Some b_s" and
    d: "map_of (depreciation_rates (env st)) k = Some delta"
      "map_of (inv_tax_credit (env st)) k = Some itc" and
    res: "res = eq_coc_state L delta
             (if m = ''dbsl'' then dbsl L Y 2 b_f ?r else sl L Y b_f ?r)
             (if m = ''dbsl'' then dbsl L Y 2 b_s ?r else sl L Y b_s ?r)
             w (u_f (env st)) us tau itc (inflation_rate (env st)) ?r"
    by blast
  let ?z_f = "if m = ''dbsl'' then dbsl L Y 2 b_f ?r else sl L Y b_f ?r"
  let ?z_s = "if m = ''dbsl'' then dbsl L Y 2 b_s ?r else sl L Y b_s ?r"
  note sz = select_z_eval [OF m l, of L ?r]
  show ?thesis
  proof (cases res)
    case (Inl e)
    with res have "eq_coc_state L delta ?z_f ?z_s w (u_f (env st)) us tau itc
        (inflation_rate (env st)) ?r = Inl e" by simp
    from outputs_raises [OF d this, of ?r' out] sz Inl show ?thesis
      by (simp add: loop_body_alt)
  next
    case (Inr rho)
    with res have "eq_coc_state L delta ?z_f ?z_s w (u_f (env st)) us tau itc
        (inflation_rate (env st)) ?r = Inr rho" by simp
    from outputs_ok [OF d this assms(2), of ?r'] sz Inr show ?thesis
      by (simp add: loop_body_alt)
  qed
qed

lemma iteration_okD:
  assumes "iteration_ok L us w tau st k"
  shows "k \<in> set [''machines'', ''buildings'', ''intangibles'']"
    and "\<exists>rho. asset_rho L us w tau st k = Some (Inr rho)"
  using assms by (auto simp add: iteration_ok_def split: option.splits sum.splits)

lemma loop_body_ok:
  assumes "iteration_ok L us w tau st k" and "k \<in> set (keys out)"
  shows "\<exists>out'. loop_body L us w tau k out st = (Inr out', st) \<and> keys out' = keys out"
proof -
  from iteration_okD(2) [OF assms(1)] obtain rho where
    "asset_rho L us w tau st k = Some (Inr rho)" by blast
  from loop_body_asset_rho [OF this assms(2)] show ?thesis by simp
qed

lemma routed_asset_rho:
  assumes "routed L us w tau st k out"
  shows "\<exists>rho inner. asset_rho L us w tau st k = Some (Inr rho) \<and>
     map_of out k = Some inner \<and> map_of inner ''rho'' = Some rho \<and>
     map_of inner ''metr'' =
       Some (eq_metr L rho (discount_rate_prime L st) (inflation_rate (env st)))"
proof -
  let ?r = "discount_rate L us st"
  from assms obtain Y b_f b_s delta itc z_f z_s rho inner where
    l: "map_of (depreciation_lives (env st)) k = Some Y"
      "map_of (federal_bonus_depreciation (env st)) k = Some b_f"
      "map_of (bonus_s (env st)) k = Some b_s" and
    d: "map_of (depreciation_rates (env st)) k = Some delta"
      "map_of (inv_tax_credit (env st)) k = Some itc" and
    z: "map_of (depreciation_methods (env st)) k = Some ''dbsl'' \<and>
           z_f = dbsl L Y 2 b_f ?r \<and> z_s = dbsl L Y 2 b_s ?r \<or>
         map_of (depreciation_methods (env st)) k = Some ''sl'' \<and>
           z_f = sl L Y b_f ?r \<and> z_s = sl L Y b_s ?r" and
    rho: "eq_coc_state L delta z_f z_s w (u_f (env st)) us tau itc
          (inflation_rate (env st)) ?r = Inr rho" and
    i: "map_of out k = Some inner" "map_of inner ''rho'' = Some rho"
      "map_of inner ''metr'' =
          Some (eq_metr L rho (discount_rate_prime L st) (inflation_rate (env st)))"
    unfolding routed_def by blast
  from z obtain m where m: "map_of (depreciation_methods (env st)) k = Some m"
    "m = ''dbsl'' \<or> m = ''sl''"
    "z_f = (if m = ''dbsl'' then dbsl L Y 2 b_f ?r else sl L Y b_f ?r)"
    "z_s = (if m = ''dbsl'' then dbsl L Y 2 b_s ?r else sl L Y b_s ?r)"
    by auto
  from asset_rho_eq [OF m(1,2) l d, of L us w tau] rho
  have "asset_rho L us w tau st k = Some (Inr rho)"
    unfolding m(3,4) by simp
  with i show ?thesis by blast
qed





section \<open>The loop and the call\<close>

lemma for_loop_append:
  "for_loop L us w tau (xs @ ys) out st =
     (case for_loop L us w tau xs out st of
        (Inl e, st') \<Rightarrow> (Inl e, st')
      | (Inr out', st') \<Rightarrow> for_loop L us w tau ys out' st')"
  by (induction xs arbitrary: out st) (auto split: prod.splits sum.splits)

lemma for_loop_env: "env (snd (for_loop L us w tau ks out st)) = env st"
proof (induction ks arbitrary: out)
  case Nil
  show ?case by simp
next
  case (Cons k ks)
  obtain res st' where lb: "loop_body L us w tau k out st = (res, st')"
    by (cases "loop_body L us w tau k out st")
  show ?case
  proof (cases res)
    case (Inl e)
    with lb loop_body_env [of L us w tau k out st] show ?thesis by simp
  next
    case (Inr out')
    with lb have "st' = st" by (simp add: loop_body_Inr_state)
    with lb Inr Cons.IH [of out'] show ?thesis by simp
  qed
qed

lemma for_loop_recognised:
  assumes "\<forall>k\<in>set ks. \<not> unrecognised st k"
  shows "snd (for_loop L us w tau ks out st) = st \<and>
         fst (for_loop L us w tau ks out st) \<noteq> Inl AssertionError"
  using assms
proof (induction ks arbitrary: out)
  case Nil
  show ?case by simp
next
  case (Cons k ks)
  from Cons.prems have k: "\<not> unrecognised st k" by simp
  obtain res st' where lb: "loop_body L us w tau k out st = (res, st')"
    by (cases "loop_body L us w tau k out st")
  with loop_body_recognised [OF k, of L us w tau out]
  have st': "st' = st" and res: "res \<noteq> Inl AssertionError" by simp_all
  show ?case
  proof (cases res)
    case (Inl e)
    with lb st' res show ?thesis by simp
  next
    case (Inr out')
    with lb st' Cons.IH [of out'] Cons.prems show ?thesis by simp
  qed
qed


lemma for_loop_ok:
  assumes "\<forall>k\<in>set ks. iteration_ok L us w tau st k" and "set ks \<subseteq> set (keys out)"
  shows "\<exists>out'. for_loop L us w tau ks out st = (Inr out', st) \<and> keys out' = keys out"
  using assms
proof (induction ks arbitrary: out)
  case Nil
  show ?case by simp
next
  case (Cons k ks)
  from Cons.prems obtain o1 where
    o1: "loop_body L us w tau k out st = (Inr o1, st)" "keys o1 = keys out"
    using loop_body_ok [of L us w tau st k out] by auto
  from Cons.prems o1(2)
  have "\<forall>k\<in>set ks. iteration_ok L us w tau st k" "set ks \<subseteq> set (keys o1)"
    by simp_all
  from Cons.IH [OF this] o1 show ?case by simp
qed


lemma for_loop_Inr:
  assumes "for_loop L us w tau ks out st = (Inr out', st')"
  shows "st' = st \<and> keys out' = keys out \<and> set ks \<subseteq> set (keys out) \<and>
         (\<forall>k\<in>set ks. routed L us w tau st k out') \<and>
         (\<forall>k. k \<notin> set ks \<longrightarrow> map_of out' k = map_of out k)"
  using assms
proof (induction ks arbitrary: out)
  case Nil
  then show ?case by simp
next
  case (Cons k ks)
  obtain res st1 where lb: "loop_body L us w tau k out st = (res, st1)"
    by (cases "loop_body L us w tau k out st")
  with Cons.prems obtain o1 where res: "res = Inr o1"
    by (cases res) auto
  note b = loop_body_Inr [OF lb [unfolded res]]
  from Cons.prems lb res b(1) have rest: "for_loop L us w tau ks o1 st = (Inr out', st')"
    by simp
  note ih = Cons.IH [OF rest]
  have "routed L us w tau st k out'"
  proof (cases "k \<in> set ks")
    case True
    with ih show ?thesis by simp
  next
    case False
    with ih have "map_of out' k = map_of o1 k" by simp
    with b(2) show ?thesis by (simp add: routed_cong [of out' k o1])
  qed
  with ih b(3) show ?case by auto
qed

lemma for_loop_hoisted_eq:
  "for_loop_hoisted L us w tau (discount_rate L us st) (discount_rate_prime L st) ks out st =
   for_loop L us w tau ks out st"
proof (induction ks arbitrary: out)
  case Nil
  show ?case by simp
next
  case (Cons k ks)
  obtain res st' where lb: "loop_body L us w tau k out st = (res, st')"
    by (cases "loop_body L us w tau k out st")
  show ?case
  proof (cases res)
    case (Inl e)
    with lb show ?thesis by (simp add: loop_body_hoisted_eq)
  next
    case (Inr out')
    with lb have "st' = st" by (simp add: loop_body_Inr_state)
    with lb Inr Cons.IH [of out'] show ?thesis by (simp add: loop_body_hoisted_eq)
  qed
qed

lemma compute_outputs_hoisted_eq:
  "compute_outputs_hoisted L us w tau st = compute_outputs L us w tau st"
  using for_loop_hoisted_eq [of L us w tau st "keys (depreciation_rates (env st))"]
  unfolding compute_outputs_hoisted_def compute_outputs_def Let_def
    discount_rate_def discount_rate_prime_def
  by simp

section \<open>Evaluation on the module's parameters\<close>

lemma module_env_simps:
  "inflation_rate module_env = 0.02"
  "nominal_int_rate module_env = 0.06"
  "fraction_financed_w_debt module_env = 0"
  "federal_bonus_depreciation module_env =
     [(''machines'', 0.4), (''buildings'', 0), (''intangibles'', 0.4)]"
  "depreciation_rates module_env =
     [(''machines'', 0.1031), (''buildings'', 0.0314), (''intangibles'', 0.33)]"
  "depreciation_lives module_env = [(''machines'', 7), (''buildings'', 39), (''intangibles'', 3)]"
  "depreciation_methods module_env =
     [(''machines'', ''dbsl''), (''buildings'', ''sl''), (''intangibles'', ''sl'')]"
  "E module_env = 0.06"
  "profit_rate module_env = 0.2"
  "int_haircut module_env = 0"
  "u_f module_env = 0.21"
  "bonus_s module_env = [(''machines'', 0), (''buildings'', 0), (''intangibles'', 0)]"
  "inv_tax_credit module_env =
     [(''machines'', 0.015), (''buildings'', 0.025), (''intangibles'', 0.01)]"
  by (simp_all add: module_env_def)

lemma module_rates_return:
  "\<not> may_raise L (u_f module_env) u_s tau_GR"
  "\<not> may_raise L (u_f module_env) u_s_ref1 tau_GR"
  by (rule not_may_raise_far;
      simp add: module_env_simps u_s_def u_s_ref1_def tau_GR_def rounding_bound_def)+

lemma store_eval:
  "map_of out k = Some inner \<Longrightarrow>
   store out k name v = Inr (dict_set out k (dict_set inner name v))"
  by (simp add: store_def dict_get_def)

lemma compute_outputs_module:
  assumes "\<not> may_raise L (u_f module_env) us tau"
  shows "\<exists>a1 a2 a3 b1 b2 b3 c1 c2 c3.
     compute_outputs L us w tau \<lparr>env = module_env, stdout = pr\<rparr> =
     (Inr [(''machines'', [(''rho'', a1), (''metr'', a2), (''eatr'', a3)]),
           (''buildings'', [(''rho'', b1), (''metr'', b2), (''eatr'', b3)]),
           (''intangibles'', [(''rho'', c1), (''metr'', c2), (''eatr'', c3)])],
      \<lparr>env = module_env, stdout = pr\<rparr>)"
proof -
  from assms have "\<not> may_raise L (21 / 100) us tau"
    by (simp add: module_env_simps)
  then have nr: "\<And>n. \<not> inner_zero_division L n (21 / 100) us"
    "\<And>n. \<not> outer_zero_division L n tau"
    by (auto simp add: may_raise_def)
  show ?thesis
    by (simp add: compute_outputs_def keys_def loop_body_alt select_z_def dict_get_def
        module_env_simps outputs_def Let_def eq_coc_state_def float_div_def nr store_def)
qed

lemma invoke_module:
  assumes "\<not> may_raise L (u_f module_env) us tau"
  shows "\<exists>a1 a2 a3 b1 b2 b3 c1 c2 c3.
     invoke L us w tau (\<lparr>env = module_env, stdout = pr\<rparr>, cs) =
     (Inr [(''machines'', [(''rho'', a1), (''metr'', a2), (''eatr'', a3)]),
           (''buildings'', [(''rho'', b1), (''metr'', b2), (''eatr'', b3)]),
           (''intangibles'', [(''rho'', c1), (''metr'', c2), (''eatr'', c3)])],
      \<lparr>env = module_env, stdout = pr\<rparr>,
      cs @ [(us, bonus_s module_env, w, tau, inv_tax_credit module_env)])"
proof -
  from compute_outputs_module [OF assms, of w pr]
  obtain a1 a2 a3 b1 b2 b3 c1 c2 c3 where
    "compute_outputs L us w tau \<lparr>env = module_env, stdout = pr\<rparr> =
     (Inr [(''machines'', [(''rho'', a1), (''metr'', a2), (''eatr'', a3)]),
           (''buildings'', [(''rho'', b1), (''metr'', b2), (''eatr'', b3)]),
           (''intangibles'', [(''rho'', c1), (''metr'', c2), (''eatr'', c3)])],
      \<lparr>env = module_env, stdout = pr\<rparr>)"
    by blast
  then show ?thesis by (simp add: invoke_def)
qed

lemma DataFrame_eval:
  "DataFrame [(''machines'', [(''rho'', a1), (''metr'', a2), (''eatr'', a3)]),
           (''buildings'', [(''rho'', b1), (''metr'', b2), (''eatr'', b3)]),
           (''intangibles'', [(''rho'', c1), (''metr'', c2), (''eatr'', c3)])] =
   \<lparr>index = [Name ''rho'', Name ''metr'', Name ''eatr''],
    columns = [(''machines'', [Num a1, Num a2, Num a3]),
               (''buildings'', [Num b1, Num b2, Num b3]),
               (''intangibles'', [Num c1, Num c2, Num c3])]\<rparr>"
  by (simp add: DataFrame_def keys_def Let_def)

lemma labelled_eval:
  "set_column
     \<lparr>index = [Name ''rho'', Name ''metr'', Name ''eatr''],
      columns = [(''machines'', m), (''buildings'', b), (''intangibles'', i)]\<rparr> ''Policy'' p =
   \<lparr>index = [Name ''rho'', Name ''metr'', Name ''eatr''],
    columns = [(''machines'', m), (''buildings'', b), (''intangibles'', i),
               (''Policy'', [p, p, p])]\<rparr>"
  by (simp add: set_column_def)

lemma stacked_eval:
  "rename_columns (reset_index (pd_concat
     [\<lparr>index = [Name ''rho'', Name ''metr'', Name ''eatr''],
       columns = [(''machines'', m1), (''buildings'', b1), (''intangibles'', i1),
                  (''Policy'', [p1, p1, p1])]\<rparr>,
      \<lparr>index = [Name ''rho'', Name ''metr'', Name ''eatr''],
       columns = [(''machines'', m2), (''buildings'', b2), (''intangibles'', i2),
                  (''Policy'', [p2, p2, p2])]\<rparr>,
      \<lparr>index = [Name ''rho'', Name ''metr'', Name ''eatr''],
       columns = [(''machines'', m3), (''buildings'', b3), (''intangibles'', i3),
                  (''Policy'', [p3, p3, p3])]\<rparr>])) [(''index'', ''output_var'')] =
   \<lparr>index = map Row [0..<9],
    columns = [(''output_var'', [Str ''rho'', Str ''metr'', Str ''eatr'', Str ''rho'', Str ''metr'',
                  Str ''eatr'', Str ''rho'', Str ''metr'', Str ''eatr'']),
               (''machines'', m1 @ m2 @ m3),
               (''buildings'', b1 @ b2 @ b3),
               (''intangibles'', i1 @ i2 @ i3),
               (''Policy'', [p1, p1, p1, p2, p2, p2, p3, p3, p3])]\<rparr>"
  by (simp add: rename_columns_def reset_index_def pd_concat_def keys_def column_def
      eval_nat_numeral)

lemma melt_eval:
  "\<exists>vs. melt
     \<lparr>index = map Row [0..<9],
      columns = [(''output_var'', ov), (''machines'', m), (''buildings'', b),
                 (''intangibles'', i), (''Policy'', p)]\<rparr>
     [''Policy'', ''output_var''] ''asset_type'' =
   Inr \<lparr>index = map Row [0..<27],
        columns = [(''Policy'', p @ p @ p), (''output_var'', ov @ ov @ ov),
                   (''asset_type'', replicate 9 (Str ''machines'') @ replicate 9 (Str ''buildings'')
                       @ replicate 9 (Str ''intangibles'')),
                   (''value'', vs)]\<rparr>"
  by (simp add: melt_def keys_def column_def Let_def)

lemma script_eval:
  "\<exists>vs. script L (initial_state, []) =
     (Inr \<lparr>index = map Row [0..<27],
           columns =
             [(''Policy'', stacked_policy @ stacked_policy @ stacked_policy),
              (''output_var'', stacked_output_var @ stacked_output_var @ stacked_output_var),
              (''asset_type'',
               replicate 9 (Str ''machines'') @ replicate 9 (Str ''buildings'')
                 @ replicate 9 (Str ''intangibles'')),
              (''value'', vs)]\<rparr>,
      initial_state,
      [(u_s, bonus_s module_env, franchise_tax_rate, tau_GR, inv_tax_credit module_env),
       (u_s_ref1, bonus_s module_env, franchise_tax_rate, tau_GR, inv_tax_credit module_env),
       (u_s, bonus_s module_env, franchise_tax_rate_ref2, tau_GR, inv_tax_credit module_env)])"
proof -
  let ?c1 = "(u_s, bonus_s module_env, franchise_tax_rate, tau_GR, inv_tax_credit module_env)"
  let ?c2 = "(u_s_ref1, bonus_s module_env, franchise_tax_rate, tau_GR,
              inv_tax_credit module_env)"
  let ?c3 = "(u_s, bonus_s module_env, franchise_tax_rate_ref2, tau_GR,
              inv_tax_credit module_env)"
  note nd = module_rates_return [of L]
  from invoke_module [OF nd(1), of franchise_tax_rate "[]" "[]"]
  obtain a1 a2 a3 b1 b2 b3 c1 c2 c3 where
    call1: "invoke L u_s franchise_tax_rate tau_GR (initial_state, []) =
     (Inr [(''machines'', [(''rho'', a1), (''metr'', a2), (''eatr'', a3)]),
           (''buildings'', [(''rho'', b1), (''metr'', b2), (''eatr'', b3)]),
           (''intangibles'', [(''rho'', c1), (''metr'', c2), (''eatr'', c3)])],
      initial_state, [?c1])"
    unfolding initial_state_def by auto
  from invoke_module [OF nd(2), of franchise_tax_rate "[]" "[?c1]"]
  obtain d1 d2 d3 e1 e2 e3 f1 f2 f3 where
    call2: "invoke L u_s_ref1 franchise_tax_rate tau_GR (initial_state, [?c1]) =
     (Inr [(''machines'', [(''rho'', d1), (''metr'', d2), (''eatr'', d3)]),
           (''buildings'', [(''rho'', e1), (''metr'', e2), (''eatr'', e3)]),
           (''intangibles'', [(''rho'', f1), (''metr'', f2), (''eatr'', f3)])],
      initial_state, [?c1, ?c2])"
    unfolding initial_state_def by auto
  from invoke_module [OF nd(1), of franchise_tax_rate_ref2 "[]" "[?c1, ?c2]"]
  obtain g1 g2 g3 h1 h2 h3 i1 i2 i3 where
    call3: "invoke L u_s franchise_tax_rate_ref2 tau_GR (initial_state, [?c1, ?c2]) =
     (Inr [(''machines'', [(''rho'', g1), (''metr'', g2), (''eatr'', g3)]),
           (''buildings'', [(''rho'', h1), (''metr'', h2), (''eatr'', h3)]),
           (''intangibles'', [(''rho'', i1), (''metr'', i2), (''eatr'', i3)])],
      initial_state, [?c1, ?c2, ?c3])"
    unfolding initial_state_def by auto
  let ?m = "[Num a1, Num a2, Num a3] @ [Num d1, Num d2, Num d3] @ [Num g1, Num g2, Num g3]"
  let ?b = "[Num b1, Num b2, Num b3] @ [Num e1, Num e2, Num e3] @ [Num h1, Num h2, Num h3]"
  let ?i = "[Num c1, Num c2, Num c3] @ [Num f1, Num f2, Num f3] @ [Num i1, Num i2, Num i3]"
  from melt_eval [of stacked_output_var ?m ?b ?i stacked_policy]
  obtain vs where m: "melt
     \<lparr>index = map Row [0..<9],
      columns = [(''output_var'', stacked_output_var), (''machines'', ?m),
                 (''buildings'', ?b), (''intangibles'', ?i), (''Policy'', stacked_policy)]\<rparr>
     [''Policy'', ''output_var''] ''asset_type'' =
   Inr \<lparr>index = map Row [0..<27],
        columns = [(''Policy'', stacked_policy @ stacked_policy @ stacked_policy),
                   (''output_var'',
                    stacked_output_var @ stacked_output_var @ stacked_output_var),
                   (''asset_type'',
                    replicate 9 (Str ''machines'') @ replicate 9 (Str ''buildings'')
                      @ replicate 9 (Str ''intangibles'')),
                   (''value'', vs)]\<rparr>"
    by blast
  have stacked: "rename_columns (reset_index (pd_concat
     [\<lparr>index = [Name ''rho'', Name ''metr'', Name ''eatr''],
       columns = [(''machines'', [Num a1, Num a2, Num a3]),
                  (''buildings'', [Num b1, Num b2, Num b3]),
                  (''intangibles'', [Num c1, Num c2, Num c3]),
                  (''Policy'', [Str ''Current Law'', Str ''Current Law'',
                                Str ''Current Law''])]\<rparr>,
      \<lparr>index = [Name ''rho'', Name ''metr'', Name ''eatr''],
       columns = [(''machines'', [Num d1, Num d2, Num d3]),
                  (''buildings'', [Num e1, Num e2, Num e3]),
                  (''intangibles'', [Num f1, Num f2, Num f3]),
                  (''Policy'', [Str ''Lower AR CIT rate to 3.5%'',
                                Str ''Lower AR CIT rate to 3.5%'',
                                Str ''Lower AR CIT rate to 3.5%''])]\<rparr>,
      \<lparr>index = [Name ''rho'', Name ''metr'', Name ''eatr''],
       columns = [(''machines'', [Num g1, Num g2, Num g3]),
                  (''buildings'', [Num h1, Num h2, Num h3]),
                  (''intangibles'', [Num i1, Num i2, Num i3]),
                  (''Policy'', [Str ''Remove AR franchise tax'',
                                Str ''Remove AR franchise tax'',
                                Str ''Remove AR franchise tax''])]\<rparr>]))
       [(''index'', ''output_var'')] =
     \<lparr>index = map Row [0..<9],
      columns = [(''output_var'', stacked_output_var), (''machines'', ?m),
                 (''buildings'', ?b), (''intangibles'', ?i), (''Policy'', stacked_policy)]\<rparr>"
    unfolding stacked_eval stacked_policy_def stacked_output_var_def by (rule refl)
  show ?thesis
    apply (rule exI [of _ vs])
    unfolding script_def call1 call2 call3 prod.case sum.case Let_def
      DataFrame_eval labelled_eval stacked m
    by (rule refl)
qed






lemma long_form_keys:
  "row_keys
     \<lparr>index = map Row [0..<27],
      columns =
        [(''Policy'', stacked_policy @ stacked_policy @ stacked_policy),
         (''output_var'', stacked_output_var @ stacked_output_var @ stacked_output_var),
         (''asset_type'',
          replicate 9 (Str ''machines'') @ replicate 9 (Str ''buildings'')
            @ replicate 9 (Str ''intangibles'')),
         (''value'', vs)]\<rparr> =
   concat (map (\<lambda>a. concat (map (\<lambda>p. map (\<lambda>m. (Str p, Str m, Str a)) output_names)
                                policy_names))
             asset_names)"
  by (simp add: row_keys_def column_def stacked_policy_def stacked_output_var_def
      policy_names_def output_names_def asset_names_def eval_nat_numeral)

lemma long_form_keys_distinct:
  "distinct (concat (map (\<lambda>a. concat (map (\<lambda>p. map (\<lambda>m. (Str p, Str m, Str a)) output_names)
                                policy_names))
             asset_names))"
  by (simp add: policy_names_def output_names_def asset_names_def)

lemma long_form_keys_set:
  "set (concat (map (\<lambda>a. concat (map (\<lambda>p. map (\<lambda>m. (Str p, Str m, Str a)) output_names)
                                policy_names))
             asset_names)) =
   (Str ` set policy_names) \<times> (Str ` set output_names) \<times> (Str ` set asset_names)"
  by auto

section \<open>The franchise tax and the cost of capital\<close>

text \<open>
  The franchise tax rate enters the cost of capital as the addend \<open>w\<close> only: the
  discount rates and the present values of depreciation do not depend on it. So between
  two calls that return and differ in the franchise tax rate alone, with \<open>tau_GR < 1\<close>,
  the cost of capital stored for every asset is strictly smaller under the smaller rate,
  whatever the library computes. The two marginal effective tax rates are the library's
  \<^verbatim>\<open>eq_metr\<close> of these two costs of capital, with the same \<open>r_prime\<close> and the same
  inflation rate: how they compare is a property of \<^verbatim>\<open>eq_metr\<close>, which the repository
  does not contain.
\<close>

lemma franchise_tax_lowers_rho:
  assumes "compute_outputs L us w1 tau st = (Inr out1, st1)"
    and "compute_outputs L us w2 tau st = (Inr out2, st2)"
    and "k \<in> set (keys (depreciation_rates (env st)))"
    and "w2 < w1" and "tau < 1"
  shows "\<exists>i1 i2 rho1 rho2.
     map_of out1 k = Some i1 \<and> map_of i1 ''rho'' = Some rho1 \<and>
     map_of out2 k = Some i2 \<and> map_of i2 ''rho'' = Some rho2 \<and>
     map_of i1 ''metr'' =
       Some (eq_metr L rho1 (discount_rate_prime L st) (inflation_rate (env st))) \<and>
     map_of i2 ''metr'' =
       Some (eq_metr L rho2 (discount_rate_prime L st) (inflation_rate (env st))) \<and>
     rho2 < rho1"
proof -
  let ?out0 = "[(''machines'', []), (''buildings'', []), (''intangibles'', [])] :: out_dict"
  let ?ks = "keys (depreciation_rates (env st))"
  from assms(1) have "for_loop L us w1 tau ?ks ?out0 st = (Inr out1, st1)"
    by (simp add: compute_outputs_def)
  from for_loop_Inr [OF this] assms(3) have "routed L us w1 tau st k out1" by simp
  from routed_asset_rho [OF this] obtain rho1 i1 where
    a1: "asset_rho L us w1 tau st k = Some (Inr rho1)" and
    i1: "map_of out1 k = Some i1" "map_of i1 ''rho'' = Some rho1"
      "map_of i1 ''metr'' =
         Some (eq_metr L rho1 (discount_rate_prime L st) (inflation_rate (env st)))"
    by blast
  from assms(2) have "for_loop L us w2 tau ?ks ?out0 st = (Inr out2, st2)"
    by (simp add: compute_outputs_def)
  from for_loop_Inr [OF this] assms(3) have "routed L us w2 tau st k out2" by simp
  from routed_asset_rho [OF this] obtain rho2 i2 where
    a2: "asset_rho L us w2 tau st k = Some (Inr rho2)" and
    i2: "map_of out2 k = Some i2" "map_of i2 ''rho'' = Some rho2"
      "map_of i2 ''metr'' =
         Some (eq_metr L rho2 (discount_rate_prime L st) (inflation_rate (env st)))"
    by blast
  from asset_rho_SomeD [OF a1] asset_rho_SomeD [OF a2] obtain delta z_f z_s i where
    "Inr rho1 = eq_coc_state L delta z_f z_s w1 (u_f (env st)) us tau i
               (inflation_rate (env st)) (discount_rate L us st)"
    "Inr rho2 = eq_coc_state L delta z_f z_s w2 (u_f (env st)) us tau i
               (inflation_rate (env st)) (discount_rate L us st)"
    by auto
  then have "rho2 < rho1"
    using eq_coc_state_mono_w [of L delta z_f z_s w1 "u_f (env st)" us tau i
        "inflation_rate (env st)" "discount_rate L us st" rho1 w2 rho2] assms(4,5)
    by simp
  with i1 i2 show ?thesis by blast
qed

lemma removing_franchise_tax:
  "\<exists>out1 out2.
     compute_outputs L u_s franchise_tax_rate tau_GR initial_state =
       (Inr out1, initial_state) \<and>
     compute_outputs L u_s franchise_tax_rate_ref2 tau_GR initial_state =
       (Inr out2, initial_state) \<and>
     (\<forall>k\<in>set asset_names.
        \<exists>i1 i2 rho1 rho2.
          map_of out1 k = Some i1 \<and> map_of i1 ''rho'' = Some rho1 \<and>
          map_of out2 k = Some i2 \<and> map_of i2 ''rho'' = Some rho2 \<and>
          map_of i1 ''metr'' =
            Some (eq_metr L rho1 (discount_rate_prime L initial_state) 0.02) \<and>
          map_of i2 ''metr'' =
            Some (eq_metr L rho2 (discount_rate_prime L initial_state) 0.02) \<and>
          rho2 < rho1)"
proof -
  note nd = module_rates_return(1) [of L]
  from compute_outputs_module [OF nd, of franchise_tax_rate "[]"]
  obtain out1 where o1: "compute_outputs L u_s franchise_tax_rate tau_GR initial_state =
       (Inr out1, initial_state)"
    unfolding initial_state_def by blast
  from compute_outputs_module [OF nd, of franchise_tax_rate_ref2 "[]"]
  obtain out2 where o2: "compute_outputs L u_s franchise_tax_rate_ref2 tau_GR initial_state =
       (Inr out2, initial_state)"
    unfolding initial_state_def by blast
  have ks: "set asset_names = set (keys (depreciation_rates (env initial_state)))"
    by (simp add: asset_names_def initial_state_def module_env_simps keys_def)
  have w: "franchise_tax_rate_ref2 < franchise_tax_rate" "tau_GR < 1"
    by (simp_all add: franchise_tax_rate_def franchise_tax_rate_ref2_def tau_GR_def)
  have pi: "inflation_rate (env initial_state) = 0.02"
    by (simp add: initial_state_def module_env_simps)
  have "\<exists>i1 i2 rho1 rho2.
          map_of out1 k = Some i1 \<and> map_of i1 ''rho'' = Some rho1 \<and>
          map_of out2 k = Some i2 \<and> map_of i2 ''rho'' = Some rho2 \<and>
          map_of i1 ''metr'' =
            Some (eq_metr L rho1 (discount_rate_prime L initial_state) 0.02) \<and>
          map_of i2 ''metr'' =
            Some (eq_metr L rho2 (discount_rate_prime L initial_state) 0.02) \<and>
          rho2 < rho1"
    if "k \<in> set asset_names" for k
    using franchise_tax_lowers_rho [OF o1 o2 that [unfolded ks] w] unfolding pi .
  with o1 o2 show ?thesis by blast
qed

section \<open>The cost-of-capital formula\<close>

text \<open>
  C1. For every input whose combined-rate denominator \<open>1 - u_f - u_s + u_f u_s\<close>
  differs from zero by more than the rounding error of its evaluation, and whose
  \<open>tau_GR\<close> is not 1, \<^verbatim>\<open>eq_coc_state\<close> returns exactly the combined federal and state
  formula of the specification, with the combined-rate denominator, the gross-receipts
  gross-up and the investment-tax-credit term. This holds for all float parameters: on
  these inputs no division can raise.
\<close>

theorem eq_coc_state_formula:
  "rounding_bound uf us < \<bar>1 - uf - us + uf * us\<bar> \<and> tau \<noteq> 1 \<longrightarrow>
     eq_coc_state F delta z_f z_s w uf us tau itc p r =
       Inr ((((r - p + delta) / (1 - uf - us + uf * us))
              * (1 - itc - uf * z_f - us * z_s + uf * us * z_s) + w) / (1 - tau) - delta)"
proof
  assume a: "rounding_bound uf us < \<bar>1 - uf - us + uf * us\<bar> \<and> tau \<noteq> 1"
  then have far: "rounding_bound uf us < \<bar>1 - uf - us + uf * us\<bar>" and t: "tau \<noteq> 1"
    by simp_all
  from far t have "\<not> may_raise F uf us tau" by (rule not_may_raise_far)
  from eq_coc_state_returns [OF this, of delta z_f z_s w itc p r] obtain rho where
    rho: "eq_coc_state F delta z_f z_s w uf us tau itc p r = Inr rho" by blast
  from eq_coc_state_Inr [OF rho far t] rho
  show "eq_coc_state F delta z_f z_s w uf us tau itc p r =
        Inr ((((r - p + delta) / (1 - uf - us + uf * us))
               * (1 - itc - uf * z_f - us * z_s + uf * us * z_s) + w) / (1 - tau) - delta)"
    by (simp add: rho_formula_def)
qed

text \<open>
  The theorem at the module's values for machines (with present values 0.87 and 0.78 and
  discount rate 0.08), where the denominator is 0.756.
\<close>

theorem eq_coc_state_formula_witness:
  "rounding_bound 0.21 0.043 < \<bar>1 - 0.21 - 0.043 + 0.21 * 0.043\<bar> \<and>
   eq_coc_state python_floats 0.1031 0.87 0.78 0.003 0.21 0.043 0 0.015 0.02 0.08 =
     Inr ((((0.08 - 0.02 + 0.1031) / (1 - 0.21 - 0.043 + 0.21 * 0.043))
            * (1 - 0.015 - 0.21 * 0.87 - 0.043 * 0.78 + 0.21 * 0.043 * 0.78) + 0.003)
          / (1 - 0) - 0.1031)"
proof -
  have far: "rounding_bound 0.21 0.043 < \<bar>1 - 0.21 - 0.043 + 0.21 * 0.043\<bar>"
    by (simp add: rounding_bound_def)
  have t: "(0::real) \<noteq> 1" by simp
  from eq_coc_state_formula [of "0.21" "0.043" 0 python_floats "0.1031" "0.87" "0.78" "0.003"
      "0.015" "0.02" "0.08"] far t
  show ?thesis by blast
qed

text \<open>
  With plain Python floats, at \<open>u_f = 1\<close>, \<open>u_s = 0\<close> the combined-rate denominator is
  0.0: the call raises and returns no value.
\<close>

theorem eq_coc_state_zero_denominator:
  "eq_coc_state python_floats 0.1031 0.87 0.78 0.003 1 0 0 0.015 0.02 0.08 =
     Inl ZeroDivisionError"
  by (simp add: eq_coc_state_def float_div_def inner_zero_division_def inner_zero_def
      rounding_bound_def python_floats_def)

section \<open>The depreciation-schedule selector\<close>

text \<open>
  C2. For every asset processed by a call of \<^verbatim>\<open>compute_outputs\<close> that returns: when
  the asset's configured method is \<^verbatim>\<open>dbsl\<close>, the federal and the state present value
  of depreciation deductions are the library's \<^verbatim>\<open>dbsl\<close> called with (life, 2, bonus
  rate, discount rate \<open>r\<close>), the federal call with the federal bonus rate and the state
  call with the state bonus rate; when the method is \<^verbatim>\<open>sl\<close>, they are the library's
  \<^verbatim>\<open>sl\<close> called with (life, bonus rate, \<open>r\<close>) with the same split. These two values
  are the ones that enter the cost of capital stored for the asset.
\<close>

theorem depreciation_method_routing:
  assumes "compute_outputs L us w tau st = (Inr out, st')"
    and "k \<in> set (keys (depreciation_rates (env st)))"
  shows "\<exists>Y b_f b_s delta itc z_f z_s rho inner.
        map_of (depreciation_lives (env st)) k = Some Y \<and>
        map_of (federal_bonus_depreciation (env st)) k = Some b_f \<and>
        map_of (bonus_s (env st)) k = Some b_s \<and>
        map_of (depreciation_rates (env st)) k = Some delta \<and>
        map_of (inv_tax_credit (env st)) k = Some itc \<and>
        (map_of (depreciation_methods (env st)) k = Some ''dbsl'' \<and>
           z_f = dbsl L Y 2 b_f (discount_rate L us st) \<and>
           z_s = dbsl L Y 2 b_s (discount_rate L us st) \<or>
         map_of (depreciation_methods (env st)) k = Some ''sl'' \<and>
           z_f = sl L Y b_f (discount_rate L us st) \<and>
           z_s = sl L Y b_s (discount_rate L us st)) \<and>
        eq_coc_state L delta z_f z_s w (u_f (env st)) us tau itc
          (inflation_rate (env st)) (discount_rate L us st) = Inr rho \<and>
        map_of out k = Some inner \<and>
        map_of inner ''rho'' = Some rho \<and>
        map_of inner ''metr'' =
          Some (eq_metr L rho (discount_rate_prime L st) (inflation_rate (env st))) \<and>
        map_of inner ''eatr'' =
          Some (eq_eatr L rho
                  (eq_metr L rho (discount_rate_prime L st) (inflation_rate (env st)))
                  (profit_rate (env st)) (u_f (env st) + us - u_f (env st) * us))"
proof -
  from assms(1) have "for_loop L us w tau (keys (depreciation_rates (env st)))
      [(''machines'', []), (''buildings'', []), (''intangibles'', [])] st = (Inr out, st')"
    by (simp add: compute_outputs_def)
  from for_loop_Inr [OF this] assms(2) have "routed L us w tau st k out" by simp
  then show ?thesis unfolding routed_def .
qed

theorem depreciation_method_routing_witness:
  "\<exists>out. compute_outputs sample_library u_s franchise_tax_rate tau_GR initial_state =
       (Inr out, initial_state) \<and>
     ''machines'' \<in> set (keys (depreciation_rates (env initial_state))) \<and>
     (\<exists>rho inner.
        eq_coc_state sample_library 0.1031
          (dbsl sample_library 7 2 0.4 (discount_rate sample_library u_s initial_state))
          (dbsl sample_library 7 2 0 (discount_rate sample_library u_s initial_state))
          franchise_tax_rate 0.21 u_s tau_GR 0.015 0.02
          (discount_rate sample_library u_s initial_state) = Inr rho \<and>
        map_of out ''machines'' = Some inner \<and>
        map_of inner ''rho'' = Some rho \<and>
        map_of inner ''metr'' =
          Some (eq_metr sample_library rho (discount_rate_prime sample_library initial_state)
                  0.02))"
proof -
  note nd = module_rates_return(1) [of sample_library]
  from compute_outputs_module [OF nd, of franchise_tax_rate "[]"]
  obtain out where out: "compute_outputs sample_library u_s franchise_tax_rate tau_GR
      initial_state = (Inr out, initial_state)"
    unfolding initial_state_def by blast
  have k: "''machines'' \<in> set (keys (depreciation_rates (env initial_state)))"
    by (simp add: initial_state_def module_env_simps keys_def)
  let ?st = initial_state
  let ?r = "discount_rate sample_library u_s ?st"
  from depreciation_method_routing [OF out k]
  obtain Y b_f b_s delta itc z_f z_s rho inner where
    Y: "map_of (depreciation_lives (env ?st)) ''machines'' = Some Y" and
    b_f: "map_of (federal_bonus_depreciation (env ?st)) ''machines'' = Some b_f" and
    b_s: "map_of (bonus_s (env ?st)) ''machines'' = Some b_s" and
    delta: "map_of (depreciation_rates (env ?st)) ''machines'' = Some delta" and
    itc: "map_of (inv_tax_credit (env ?st)) ''machines'' = Some itc" and
    z: "map_of (depreciation_methods (env ?st)) ''machines'' = Some ''dbsl'' \<and>
           z_f = dbsl sample_library Y 2 b_f ?r \<and> z_s = dbsl sample_library Y 2 b_s ?r \<or>
         map_of (depreciation_methods (env ?st)) ''machines'' = Some ''sl'' \<and>
           z_f = sl sample_library Y b_f ?r \<and> z_s = sl sample_library Y b_s ?r" and
    rho: "eq_coc_state sample_library delta z_f z_s franchise_tax_rate (u_f (env ?st)) u_s tau_GR itc
          (inflation_rate (env ?st)) ?r = Inr rho" and
    inner: "map_of out ''machines'' = Some inner" "map_of inner ''rho'' = Some rho"
      "map_of inner ''metr'' =
          Some (eq_metr sample_library rho (discount_rate_prime sample_library ?st)
                  (inflation_rate (env ?st)))"
    by blast
  have vals: "Y = 7" "b_f = 0.4" "b_s = 0" "delta = 0.1031" "itc = 0.015"
    using Y b_f b_s delta itc by (simp_all add: initial_state_def module_env_simps)
  have zs: "z_f = dbsl sample_library 7 2 0.4 ?r" "z_s = dbsl sample_library 7 2 0 ?r"
    using z unfolding vals by (simp_all add: initial_state_def module_env_simps)
  have cs: "u_f (env ?st) = 0.21" "inflation_rate (env ?st) = 0.02"
    by (simp_all add: initial_state_def module_env_simps)
  from rho inner out k show ?thesis
    unfolding vals zs cs by blast
qed

section \<open>The frame of a call\<close>

text \<open>
  C8. A call of \<^verbatim>\<open>compute_outputs\<close> leaves the configuration unchanged, whether it
  returns or raises: the whole environment is the same afterwards, in particular the
  dictionaries \<^verbatim>\<open>depreciation_rates\<close>, \<^verbatim>\<open>depreciation_lives\<close>,
  \<^verbatim>\<open>depreciation_methods\<close>, \<^verbatim>\<open>federal_bonus_depreciation\<close> and the two
  dictionaries passed as \<^verbatim>\<open>bonus_s\<close> and \<^verbatim>\<open>inv_tax_credit\<close>.
\<close>

theorem compute_outputs_frame:
  "env (snd (compute_outputs L us w tau st)) = env st \<and>
   depreciation_rates (env (snd (compute_outputs L us w tau st))) = depreciation_rates (env st) \<and>
   depreciation_lives (env (snd (compute_outputs L us w tau st))) = depreciation_lives (env st) \<and>
   depreciation_methods (env (snd (compute_outputs L us w tau st))) =
     depreciation_methods (env st) \<and>
   federal_bonus_depreciation (env (snd (compute_outputs L us w tau st))) =
     federal_bonus_depreciation (env st) \<and>
   bonus_s (env (snd (compute_outputs L us w tau st))) = bonus_s (env st) \<and>
   inv_tax_credit (env (snd (compute_outputs L us w tau st))) = inv_tax_credit (env st)"
  by (simp add: compute_outputs_def for_loop_env)

section \<open>The discount rates do not depend on the asset\<close>

text \<open>
  C9. The discount rate \<open>r\<close> and the after-tax rate \<open>r_prime\<close> that an iteration
  recomputes depend on the call only, not on the asset or on the results so far: every
  iteration equals the one that is handed the two rates computed from the state at the
  start of the call, and \<^verbatim>\<open>compute_outputs\<close> equals the refactored function that
  computes them once before the loop, on every input, in its result and in its effect.
\<close>

theorem discount_rates_hoisted:
  "(\<forall>k out. loop_body L us w tau k out st =
      loop_body_hoisted L us w tau (discount_rate L us st) (discount_rate_prime L st) k out st) \<and>
   compute_outputs L us w tau st = compute_outputs_hoisted L us w tau st"
  by (simp add: loop_body_hoisted_eq compute_outputs_hoisted_eq)

section \<open>Unguarded dictionary lookups\<close>



section \<open>The unrecognised-method error path\<close>

text \<open>
  C3. When the loop reaches an asset whose configured method name is neither
  \<^verbatim>\<open>dbsl\<close> nor \<^verbatim>\<open>sl\<close>, that is, when the iterations of all assets before it in
  \<^verbatim>\<open>depreciation_rates\<close> raise nothing, \<^verbatim>\<open>compute_outputs\<close> prints the diagnostic
  line once and halts at once with an assertion failure: it returns no result and
  processes no later asset. Conversely, when no asset has an unrecognised method name,
  the assertion is never raised and nothing is printed.
\<close>

theorem unrecognised_method_halts:
  "(keys (depreciation_rates (env st)) = pre @ k # post \<and>
    (\<forall>k'\<in>set pre. iteration_ok L us w tau st k') \<and> unrecognised st k \<longrightarrow>
      compute_outputs L us w tau st =
        (Inl AssertionError,
         st\<lparr>stdout := stdout st @ [''Please enter one of: dbsl, sl'']\<rparr>)) \<and>
   ((\<forall>k\<in>set (keys (depreciation_rates (env st))). \<not> unrecognised st k) \<longrightarrow>
      snd (compute_outputs L us w tau st) = st \<and>
      fst (compute_outputs L us w tau st) \<noteq> Inl AssertionError)"
proof (intro conjI impI)
  define out0 :: out_dict
    where "out0 = [(''machines'', []), (''buildings'', []), (''intangibles'', [])]"
  assume a: "keys (depreciation_rates (env st)) = pre @ k # post \<and>
    (\<forall>k'\<in>set pre. iteration_ok L us w tau st k') \<and> unrecognised st k"
  then have "set pre \<subseteq> set (keys out0)"
    using iteration_okD(1) [of L us w tau st] by (auto simp add: out0_def keys_def)
  with a obtain out' where pre: "for_loop L us w tau pre out0 st = (Inr out', st)"
    using for_loop_ok [of pre L us w tau st out0] by blast
  from a have "loop_body L us w tau k out' st =
      (Inl AssertionError, st\<lparr>stdout := stdout st @ [diagnostic]\<rparr>)"
    by (simp add: loop_body_unrecognised)
  with pre a show "compute_outputs L us w tau st =
        (Inl AssertionError,
         st\<lparr>stdout := stdout st @ [''Please enter one of: dbsl, sl'']\<rparr>)"
    unfolding compute_outputs_def out0_def [symmetric] diagnostic_def
    by (simp add: for_loop_append)
next
  assume "\<forall>k\<in>set (keys (depreciation_rates (env st))). \<not> unrecognised st k"
  from for_loop_recognised [OF this]
  show "snd (compute_outputs L us w tau st) = st"
    and "fst (compute_outputs L us w tau st) \<noteq> Inl AssertionError"
    by (simp_all add: compute_outputs_def)
qed

text \<open>
  The theorem with buildings misconfigured, at the module's arguments and, for a library
  computing with numpy floats, at \<open>tau_GR = 1\<close>, where the iteration for machines
  completes; and with the module's own configuration.
\<close>

theorem unrecognised_method_halts_witness:
  "compute_outputs sample_library u_s franchise_tax_rate tau_GR unknown_method_state =
     (Inl AssertionError,
      unknown_method_state\<lparr>stdout := [''Please enter one of: dbsl, sl'']\<rparr>) \<and>
   compute_outputs sample_numpy_library u_s franchise_tax_rate 1 unknown_method_state =
     (Inl AssertionError,
      unknown_method_state\<lparr>stdout := [''Please enter one of: dbsl, sl'']\<rparr>) \<and>
   snd (compute_outputs sample_library u_s franchise_tax_rate tau_GR initial_state) =
     initial_state \<and>
   fst (compute_outputs sample_library u_s franchise_tax_rate tau_GR initial_state) \<noteq>
     Inl AssertionError"
proof -
  have k: "keys (depreciation_rates (env unknown_method_state)) =
      [''machines''] @ ''buildings'' # [''intangibles'']"
    by (simp add: unknown_method_state_def module_env_simps keys_def)
  have e: "env unknown_method_state =
      module_env\<lparr>depreciation_methods :=
        [(''machines'', ''dbsl''), (''buildings'', ''ddb''), (''intangibles'', ''sl'')]\<rparr>"
    by (simp add: unknown_method_state_def)
  have a: "asset_rho L us w tau unknown_method_state ''machines'' =
      Some (eq_coc_state L 0.1031
              (dbsl L 7 2 0.4 (discount_rate L us unknown_method_state))
              (dbsl L 7 2 0 (discount_rate L us unknown_method_state))
              w 0.21 us tau 0.015 0.02 (discount_rate L us unknown_method_state))"
    for L us w tau
    unfolding asset_rho_def e by (simp add: module_env_simps)
  have nr: "\<not> may_raise sample_library 0.21 u_s tau_GR"
    by (rule not_may_raise_far) (simp_all add: u_s_def tau_GR_def rounding_bound_def)
  have nr': "\<not> may_raise sample_numpy_library 0.21 u_s 1"
    by (simp add: may_raise_def inner_zero_division_def outer_zero_division_def
        sample_numpy_library_def sample_library_def)
  have ret: "(case eq_coc_state sample_library d zf zs w' (21 / 100) u_s tau_GR i p r of
      Inl e \<Rightarrow> False | Inr rho \<Rightarrow> True)" for d zf zs w' i p r
    using eq_coc_state_returns [OF nr, of d zf zs w' i p r] by auto
  have ret': "(case eq_coc_state sample_numpy_library d zf zs w' (21 / 100) u_s 1 i p r of
      Inl e \<Rightarrow> False | Inr rho \<Rightarrow> True)" for d zf zs w' i p r
    using eq_coc_state_returns [OF nr', of d zf zs w' i p r] by auto
  have ok: "\<forall>k'\<in>set [''machines''].
      iteration_ok sample_library u_s franchise_tax_rate tau_GR unknown_method_state k'"
    by (simp add: iteration_ok_def a ret)
  have ok': "\<forall>k'\<in>set [''machines''].
      iteration_ok sample_numpy_library u_s franchise_tax_rate 1 unknown_method_state k'"
    by (simp add: iteration_ok_def a ret')
  have un: "unrecognised unknown_method_state ''buildings''"
    by (simp add: unrecognised_def unknown_method_state_def)
  have out: "stdout unknown_method_state = []"
    by (simp add: unknown_method_state_def)
  have rec: "\<forall>k\<in>set (keys (depreciation_rates (env initial_state))).
      \<not> unrecognised initial_state k"
    by (simp add: unrecognised_def initial_state_def module_env_simps keys_def)
  from unrecognised_method_halts [of unknown_method_state "[''machines'']" "''buildings''"
      "[''intangibles'']" sample_library u_s franchise_tax_rate tau_GR] k ok un out
  have "compute_outputs sample_library u_s franchise_tax_rate tau_GR unknown_method_state =
     (Inl AssertionError,
      unknown_method_state\<lparr>stdout := [''Please enter one of: dbsl, sl'']\<rparr>)"
    by simp
  moreover
  from unrecognised_method_halts [of unknown_method_state "[''machines'']" "''buildings''"
      "[''intangibles'']" sample_numpy_library u_s franchise_tax_rate 1] k ok' un out
  have "compute_outputs sample_numpy_library u_s franchise_tax_rate 1 unknown_method_state =
     (Inl AssertionError,
      unknown_method_state\<lparr>stdout := [''Please enter one of: dbsl, sl'']\<rparr>)"
    by simp
  moreover from unrecognised_method_halts [of initial_state "[]" "''x''" "[]" sample_library
      u_s franchise_tax_rate tau_GR] rec
  have "snd (compute_outputs sample_library u_s franchise_tax_rate tau_GR initial_state) =
     initial_state \<and>
   fst (compute_outputs sample_library u_s franchise_tax_rate tau_GR initial_state) \<noteq>
     Inl AssertionError"
    by blast
  ultimately show ?thesis by blast
qed

text \<open>
  An unrecognised method does not by itself lead to the diagnostic: here buildings has an
  unknown method, but the iteration for machines, which comes first, fails on a missing
  key; nothing is printed and the exception is not an assertion failure.
\<close>

theorem lookup_failure_before_unrecognised_method:
  "unrecognised unknown_method_missing_key_state ''buildings'' \<and>
   compute_outputs sample_library u_s franchise_tax_rate tau_GR
     unknown_method_missing_key_state =
     (Inl (KeyError ''machines''), unknown_method_missing_key_state)"
  by (simp add: unrecognised_def unknown_method_missing_key_state_def compute_outputs_def
      keys_def module_env_simps loop_body_alt select_z_def dict_get_def)

section \<open>The three scenarios and the final table\<close>

text \<open>
  C7. The script calls \<^verbatim>\<open>compute_outputs\<close> exactly three times, for current law,
  the lowered state tax rate and the removed franchise tax. Every call passes the same
  state bonus-depreciation dictionary, the same gross-receipts rate and the same state
  investment-tax-credit dictionary; the calls differ only in the state tax rate (0.043,
  0.035, 0.043) and in the franchise tax rate (0.003, 0.003, 0).
\<close>

theorem three_invocations:
  "snd (snd (script L (initial_state, []))) =
     [(0.043, [(''machines'', 0), (''buildings'', 0), (''intangibles'', 0)], 0.003, 0,
       [(''machines'', 0.015), (''buildings'', 0.025), (''intangibles'', 0.01)]),
      (0.035, [(''machines'', 0), (''buildings'', 0), (''intangibles'', 0)], 0.003, 0,
       [(''machines'', 0.015), (''buildings'', 0.025), (''intangibles'', 0.01)]),
      (0.043, [(''machines'', 0), (''buildings'', 0), (''intangibles'', 0)], 0, 0,
       [(''machines'', 0.015), (''buildings'', 0.025), (''intangibles'', 0.01)])]"
proof -
  from script_eval [of L] obtain r s where
    "script L (initial_state, []) = (r, s,
      [(u_s, bonus_s module_env, franchise_tax_rate, tau_GR, inv_tax_credit module_env),
       (u_s_ref1, bonus_s module_env, franchise_tax_rate, tau_GR, inv_tax_credit module_env),
       (u_s, bonus_s module_env, franchise_tax_rate_ref2, tau_GR, inv_tax_credit module_env)])"
    by blast
  then show ?thesis
    by (simp add: u_s_def u_s_ref1_def franchise_tax_rate_def franchise_tax_rate_ref2_def
        tau_GR_def module_env_simps)
qed

text \<open>
  The bonus-depreciation dictionary and the investment-tax-credit dictionary do not
  differ between the calls: the three calls receive the same two dictionaries.
\<close>

theorem invocations_share_maps:
  "map call_bonus_s (snd (snd (script sample_library (initial_state, [])))) =
     [[(''machines'', 0), (''buildings'', 0), (''intangibles'', 0)],
      [(''machines'', 0), (''buildings'', 0), (''intangibles'', 0)],
      [(''machines'', 0), (''buildings'', 0), (''intangibles'', 0)]] \<and>
   map call_inv_tax_credit (snd (snd (script sample_library (initial_state, [])))) =
     [[(''machines'', 0.015), (''buildings'', 0.025), (''intangibles'', 0.01)],
      [(''machines'', 0.015), (''buildings'', 0.025), (''intangibles'', 0.01)],
      [(''machines'', 0.015), (''buildings'', 0.025), (''intangibles'', 0.01)]]"
proof -
  from script_eval [of sample_library] obtain r s where
    "script sample_library (initial_state, []) = (r, s,
      [(u_s, bonus_s module_env, franchise_tax_rate, tau_GR, inv_tax_credit module_env),
       (u_s_ref1, bonus_s module_env, franchise_tax_rate, tau_GR, inv_tax_credit module_env),
       (u_s, bonus_s module_env, franchise_tax_rate_ref2, tau_GR, inv_tax_credit module_env)])"
    by blast
  then show ?thesis
    by (simp add: call_bonus_s_def call_inv_tax_credit_def module_env_simps)
qed

text \<open>
  C6. After the three result tables are labelled, concatenated and melted, the long-form
  table has exactly 27 rows, and the rows are uniquely identified by their (Policy,
  output_var, asset_type) triples: the 27 keys are pairwise distinct and are exactly the
  triples of the 3 policies, the 3 output metrics and the 3 asset types.
\<close>

theorem long_form_table:
  "\<exists>df s. script L (initial_state, []) = (Inr df, s) \<and>
     length (index df) = 27 \<and>
     length (row_keys df) = 27 \<and>
     distinct (row_keys df) \<and>
     set (row_keys df) =
       (Str ` set policy_names) \<times> (Str ` set output_names) \<times> (Str ` set asset_names)"
proof -
  from script_eval [of L] obtain vs s df where
    df: "df = \<lparr>index = map Row [0..<27],
      columns =
        [(''Policy'', stacked_policy @ stacked_policy @ stacked_policy),
         (''output_var'', stacked_output_var @ stacked_output_var @ stacked_output_var),
         (''asset_type'',
          replicate 9 (Str ''machines'') @ replicate 9 (Str ''buildings'')
            @ replicate 9 (Str ''intangibles'')),
         (''value'', vs)]\<rparr>" and
    run: "script L (initial_state, []) = (Inr df, s)"
    by blast
  have keys: "row_keys df =
      concat (map (\<lambda>a. concat (map (\<lambda>p. map (\<lambda>m. (Str p, Str m, Str a)) output_names)
                                   policy_names))
                asset_names)"
    unfolding df by (rule long_form_keys)
  have "length (index df) = 27" by (simp add: df)
  moreover have "length (row_keys df) = 27"
    unfolding keys by (simp add: policy_names_def output_names_def asset_names_def)
  moreover have "distinct (row_keys df)"
    unfolding keys by (rule long_form_keys_distinct)
  moreover have "set (row_keys df) =
       (Str ` set policy_names) \<times> (Str ` set output_names) \<times> (Str ` set asset_names)"
    unfolding keys by (rule long_form_keys_set)
  ultimately show ?thesis using run by blast
qed

end
